theory Spec2Isabelle
  imports Main
begin

section \<open>Values, payloads and the page\<close>

text \<open>
  The script \<^verbatim>\<open>blocks/mycard/mycard.js\<close> is one \<^verbatim>\<open>DOMContentLoaded\<close> callback that holds
  three functions (\<^verbatim>\<open>renderContentBlock\<close>, \<^verbatim>\<open>showTemporaryMessage\<close>,
  \<^verbatim>\<open>fetchContentForBlock\<close>) and the initialisation code. Its effects are mutations of the
  DOM, console output, timers and one promise; they are modelled by explicit state passing
  over the record \<open>page\<close>.

  The values a payload field can hold: a string, \<^verbatim>\<open>null\<close>, or \<^verbatim>\<open>undefined\<close> (also what
  reading an absent property gives). \<open>truthy\<close> is JavaScript's conversion to a boolean.
\<close>

datatype jsval = Undefined | Null | Str string

fun truthy :: "jsval \<Rightarrow> bool" where
  "truthy (Str s) = (s \<noteq> [])"
| "truthy Undefined = False"
| "truthy Null = False"

text \<open>Conversion to a string, as string concatenation and template literals do it.\<close>

fun str_of :: "jsval \<Rightarrow> string" where
  "str_of (Str s) = s"
| "str_of Undefined = ''undefined''"
| "str_of Null = ''null''"

record content =
  title :: jsval
  description :: jsval
  buttonText :: jsval
  buttonLink :: jsval

type_synonym nid = nat

text \<open>
  Event listeners are closures. The script creates two kinds: the click listener of lines
  50 to 58, which captures \<^verbatim>\<open>data\<close>, and the \<^verbatim>\<open>transitionend\<close> listener of line 101, which
  captures \<^verbatim>\<open>messageBox\<close>.
\<close>

datatype listener = Click_action content | Remove_self nid

text \<open>
  A DOM node, with the attributes and properties the script reads or writes. The inline
  style is kept as its \<^verbatim>\<open>display\<close> and \<^verbatim>\<open>opacity\<close> properties; the other declarations of
  line 73 to 88 are presentational and never read. \<open>parentNode = None\<close> is JavaScript's
  \<^verbatim>\<open>null\<close>: the node is detached. The document node itself is the only connected node
  without a parent, and it is not an element. \<open>textContent\<close> is the text an element holds
  itself: the elements the script writes to (the three render targets of the template and
  the overlays it creates) are taken to hold text only, with no element inside them.
\<close>

record node =
  elem_id :: string
  data_block_id :: "string option"
  textContent :: string
  display :: string
  opacity :: string
  parentNode :: "nid option"
  listeners :: "(string \<times> listener) list"

record targets =
  blockTitleElement :: "nid option"
  blockDescriptionElement :: "nid option"
  blockButtonElement :: "nid option"

text \<open>
  What \<^verbatim>\<open>mockContentData[blockId] || {...}\<close> evaluates to: an entry of the table, the
  fallback object, or a member that the object literal inherits from \<^verbatim>\<open>Object.prototype\<close>.
\<close>

datatype fetched = Entry content | Inherited string

datatype exn = TypeError

datatype outcome = Returned | Threw exn

datatype settlement = Pending | Fulfilled fetched | Rejected exn

text \<open>
  The reaction registered on the promise at lines 179 to 190: it captures the render
  targets (through \<^verbatim>\<open>renderContentBlock\<close>) and \<^verbatim>\<open>blockId\<close>.
\<close>

datatype reaction = Then_render_catch targets string

record promise =
  settlement :: settlement
  reactions :: "reaction list"

text \<open>The three timer callbacks: lines 154 to 162, 93 to 95 and 98 to 102.\<close>

datatype task = Resolve_fetch nat string | Fade_in nid | Fade_out nid

datatype level = Log | Warn | Error

record page =
  nodes :: "nid \<Rightarrow> node"
  next_node :: nid
  body :: nid
  console :: "(level \<times> string list) list"
  location_href :: string
  timers :: "(nat \<times> task) list"
  now :: nat
  promises :: "nat \<Rightarrow> promise"
  next_promise :: nat

section \<open>DOM and browser primitives\<close>

definition console_out :: "level \<Rightarrow> string list \<Rightarrow> page \<Rightarrow> page" where
  "console_out l args s = s\<lparr>console := console s @ [(l, args)]\<rparr>"

text \<open>
  The \<^verbatim>\<open>textContent\<close> setter: the text of the element is replaced. The render targets of
  the template and the overlays hold text only; on an element that has element children
  the DOM setter would also detach them, which this model leaves out. On the example pages
  no element the script writes to has a child.
\<close>

definition set_textContent :: "nid \<Rightarrow> string \<Rightarrow> page \<Rightarrow> page" where
  "set_textContent n t s = s\<lparr>nodes := (nodes s)(n := (nodes s n)\<lparr>textContent := t\<rparr>)\<rparr>"

definition set_display :: "nid \<Rightarrow> string \<Rightarrow> page \<Rightarrow> page" where
  "set_display n v s = s\<lparr>nodes := (nodes s)(n := (nodes s n)\<lparr>display := v\<rparr>)\<rparr>"

definition set_opacity :: "nid \<Rightarrow> string \<Rightarrow> page \<Rightarrow> page" where
  "set_opacity n v s = s\<lparr>nodes := (nodes s)(n := (nodes s n)\<lparr>opacity := v\<rparr>)\<rparr>"

definition set_parentNode :: "nid \<Rightarrow> nid option \<Rightarrow> page \<Rightarrow> page" where
  "set_parentNode n p s = s\<lparr>nodes := (nodes s)(n := (nodes s n)\<lparr>parentNode := p\<rparr>)\<rparr>"

text \<open>
  \<^verbatim>\<open>cloneNode(true)\<close>: a new detached node with the attributes (identifier, inline style)
  and the text of the original; listeners added with \<^verbatim>\<open>addEventListener\<close> are not copied.
\<close>

definition cloneNode :: "nid \<Rightarrow> page \<Rightarrow> nid \<times> page" where
  "cloneNode n s =
     (next_node s,
      s\<lparr>nodes := (nodes s)(next_node s := (nodes s n)\<lparr>parentNode := None, listeners := []\<rparr>),
        next_node := Suc (next_node s)\<rparr>)"

text \<open>\<^verbatim>\<open>p.replaceChild(new, old)\<close> for a child \<open>old\<close> of \<open>p\<close>: \<open>new\<close> takes its place.\<close>

definition replaceChild :: "nid \<Rightarrow> nid \<Rightarrow> nid \<Rightarrow> page \<Rightarrow> page" where
  "replaceChild p new old s = set_parentNode old None (set_parentNode new (Some p) s)"

definition addEventListener :: "nid \<Rightarrow> string \<Rightarrow> listener \<Rightarrow> page \<Rightarrow> page" where
  "addEventListener n ev l s =
     s\<lparr>nodes := (nodes s)(n := (nodes s n)\<lparr>listeners := listeners (nodes s n) @ [(ev, l)]\<rparr>)\<rparr>"

text \<open>\<^verbatim>\<open>document.createElement('div')\<close>: a new detached element with nothing set.\<close>

definition createElement :: "page \<Rightarrow> nid \<times> page" where
  "createElement s =
     (next_node s,
      s\<lparr>nodes := (nodes s)(next_node s :=
            \<lparr>elem_id = [], data_block_id = None, textContent = [], display = [],
             opacity = [], parentNode = None, listeners = []\<rparr>),
        next_node := Suc (next_node s)\<rparr>)"

definition setTimeout :: "task \<Rightarrow> nat \<Rightarrow> page \<Rightarrow> page" where
  "setTimeout tk delay s = s\<lparr>timers := timers s @ [(now s + delay, tk)]\<rparr>"

text \<open>
  \<^verbatim>\<open>document.getElementById\<close>: the first element of the document with that identifier.
\<close>

definition getElementById :: "string \<Rightarrow> page \<Rightarrow> nid option" where
  "getElementById i s =
     find (\<lambda>n. elem_id (nodes s n) = i \<and> parentNode (nodes s n) \<noteq> None) [0..<next_node s]"

section \<open>showTemporaryMessage (lines 71 to 103)\<close>

definition showTemporaryMessage :: "string \<Rightarrow> page \<Rightarrow> page" where
  "showTemporaryMessage message s =
     (let (messageBox, s1) = createElement s;
          s2 = set_opacity messageBox ''0'' s1;
          s3 = set_textContent messageBox message s2;
          s4 = set_parentNode messageBox (Some (body s3)) s3;
          s5 = setTimeout (Fade_in messageBox) 10 s4
      in setTimeout (Fade_out messageBox) 2000 s5)"

section \<open>renderContentBlock (lines 21 to 63)\<close>

definition render_title :: "targets \<Rightarrow> content \<Rightarrow> page \<Rightarrow> page" where
  "render_title tg d s =
     (if blockTitleElement tg \<noteq> None \<and> truthy (title d)
      then set_textContent (the (blockTitleElement tg)) (str_of (title d)) s
      else
        (let s1 = console_out Warn
               [''Content Block: Title element or content data.title not found. Using default.''] s
         in case blockTitleElement tg of
              Some n \<Rightarrow> set_textContent n ''Default Component Title'' s1
            | None \<Rightarrow> s1))"

definition render_description :: "targets \<Rightarrow> content \<Rightarrow> page \<Rightarrow> page" where
  "render_description tg d s =
     (if blockDescriptionElement tg \<noteq> None \<and> truthy (description d)
      then set_textContent (the (blockDescriptionElement tg)) (str_of (description d)) s
      else
        (let s1 = console_out Warn
               [''Content Block: Description element or content data.description not found. Using default.''] s
         in case blockDescriptionElement tg of
              Some n \<Rightarrow> set_textContent n ''Default description text for the component.'' s1
            | None \<Rightarrow> s1))"

text \<open>
  The button part, lines 39 to 62. Line 48 reads \<^verbatim>\<open>blockButtonElement.parentNode\<close> and calls
  \<^verbatim>\<open>replaceChild\<close> on it: when the element is detached the property is \<^verbatim>\<open>null\<close> and the call
  throws a \<^verbatim>\<open>TypeError\<close>, after the mutations of lines 41, 42 and 47.
\<close>

definition render_button :: "targets \<Rightarrow> content \<Rightarrow> page \<Rightarrow> outcome \<times> page" where
  "render_button tg d s =
     (case blockButtonElement tg of
        None \<Rightarrow> (Returned, s)
      | Some b \<Rightarrow>
          if truthy (buttonText d) then
            (let s1 = set_textContent b (str_of (buttonText d)) s;
                 s2 = set_display b ''block'' s1;
                 (newButton, s3) = cloneNode b s2
             in case parentNode (nodes s3 b) of
                  None \<Rightarrow> (Threw TypeError, s3)
                | Some p \<Rightarrow>
                    (Returned,
                     addEventListener newButton ''click'' (Click_action d)
                       (replaceChild p newButton b s3)))
          else (Returned, set_display b ''none'' s))"

definition renderContentBlock :: "targets \<Rightarrow> content \<Rightarrow> page \<Rightarrow> outcome \<times> page" where
  "renderContentBlock tg d s = render_button tg d (render_description tg d (render_title tg d s))"

section \<open>Events\<close>

definition click_message :: "content \<Rightarrow> string" where
  "click_message d = ''Action: '' @ [CHR 0x22] @ str_of (buttonText d) @ [CHR 0x22] @ '' clicked!''"

text \<open>
  Running a listener: the click listener of lines 50 to 58 (navigation is logged, the
  assignment to the location is commented out in the source), and the removal of line 101.
\<close>

fun run_listener :: "listener \<Rightarrow> page \<Rightarrow> page" where
  "run_listener (Click_action d) s =
     showTemporaryMessage (click_message d)
       (if truthy (buttonLink d)
        then console_out Log [''Content Block: Navigating to:'', str_of (buttonLink d)] s
        else s)"
| "run_listener (Remove_self m) s = set_parentNode m None s"

text \<open>Dispatching an event at a node runs the listeners registered there for it, in order.\<close>

definition dispatchEvent :: "string \<Rightarrow> nid \<Rightarrow> page \<Rightarrow> page" where
  "dispatchEvent ev n s =
     fold run_listener (map snd (filter (\<lambda>(e, l). e = ev) (listeners (nodes s n)))) s"

section \<open>fetchContentForBlock (lines 120 to 164)\<close>

definition mockContentData :: "(string \<times> content) list" where
  "mockContentData =
    [(''homepage-hero-block'',
      \<lparr>title = Str ''Accelerate Your Digital Experience'',
       description = Str ''Leverage Adobe EDS components for rapid development and consistent brand presence across all your digital touchpoints. From design to deployment, streamline your workflow.'',
       buttonText = Str ''Discover Our Components'',
       buttonLink = Str ''/components''\<rparr>),
     (''about-us-intro-block'',
      \<lparr>title = Str ''Our Story: Innovation at Core'',
       description = Str ''Learn about our journey in pioneering digital solutions that empower businesses worldwide. We believe in crafting exceptional user experiences and solutions.'',
       buttonText = Str ''Meet the Team'',
       buttonLink = Str ''/about''\<rparr>),
     (''contact-promo-block'',
      \<lparr>title = Str ''Ready to Transform?'',
       description = Str ''Connect with our experts to discuss how our EDS can elevate your digital strategy. We're here to help you succeed, every step of the way.'',
       buttonText = Str ''Contact Us Today'',
       buttonLink = Str ''/contact''\<rparr>),
     (''no-button-info-block'',
      \<lparr>title = Str ''Important Update'',
       description = Str ''This content block provides vital updates and does not require a call-to-action button, focusing purely on conveying information.'',
       buttonText = Undefined,
       buttonLink = Undefined\<rparr>)]"

text \<open>
  \<^verbatim>\<open>mockContentData\<close> is an object literal, so \<^verbatim>\<open>mockContentData[blockId]\<close> also finds the
  properties it inherits from \<^verbatim>\<open>Object.prototype\<close>. Each of them is a function or an
  object, hence truthy, and has none of the four payload properties.
\<close>

definition object_prototype_keys :: "string list" where
  "object_prototype_keys =
    [''constructor'', ''__defineGetter__'', ''__defineSetter__'', ''hasOwnProperty'',
     ''__lookupGetter__'', ''__lookupSetter__'', ''isPrototypeOf'', ''propertyIsEnumerable'',
     ''toString'', ''valueOf'', ''__proto__'', ''toLocaleString'']"

definition get_property :: "string \<Rightarrow> fetched option" where
  "get_property blockId =
     (case map_of mockContentData blockId of
        Some e \<Rightarrow> Some (Entry e)
      | None \<Rightarrow> if blockId \<in> set object_prototype_keys then Some (Inherited blockId) else None)"

definition fallback :: "string \<Rightarrow> content" where
  "fallback blockId =
     \<lparr>title = Str (''Content Not Found (ID: '' @ blockId @ '')''),
      description = Str ''The content for this specific block could not be loaded. Please verify the block ID and content source configuration.'',
      buttonText = Null,
      buttonLink = Undefined\<rparr>"

text \<open>Line 156: \<^verbatim>\<open>const data = mockContentData[blockId] || {...}\<close>.\<close>

definition resolved_data :: "string \<Rightarrow> fetched" where
  "resolved_data blockId =
     (case get_property blockId of Some v \<Rightarrow> v | None \<Rightarrow> Entry (fallback blockId))"

text \<open>
  The call logs, creates the promise and starts the timer of line 154. (The \<^verbatim>\<open>async\<close>
  wrapper's promise follows the promise of line 152; they are modelled as one.)
\<close>

definition fetchContentForBlock :: "string \<Rightarrow> page \<Rightarrow> nat \<times> page" where
  "fetchContentForBlock blockId s =
     (let s1 = console_out Log
            [''Content Block: Simulating content fetch for block ID: '' @ [CHR 0x22] @ blockId @ [CHR 0x22]] s;
          p = next_promise s1;
          s2 = s1\<lparr>promises := (promises s1)(p := \<lparr>settlement = Pending, reactions = []\<rparr>),
                 next_promise := Suc p\<rparr>
      in (p, setTimeout (Resolve_fetch p blockId) 500 s2))"

section \<open>Initialisation (lines 3 to 9 and 169 to 193) and the event loop\<close>

text \<open>The properties \<^verbatim>\<open>renderContentBlock\<close> reads from the value the promise resolved with.\<close>

fun payload_of :: "fetched \<Rightarrow> content" where
  "payload_of (Entry c) = c"
| "payload_of (Inherited k) =
     \<lparr>title = Undefined, description = Undefined, buttonText = Undefined, buttonLink = Undefined\<rparr>"

definition error_payload :: content where
  "error_payload =
     \<lparr>title = Str ''Error Loading Content'',
      description = Str ''An unexpected error occurred while fetching the content for this block. Please contact support.'',
      buttonText = Null,
      buttonLink = Undefined\<rparr>"

fun exn_name :: "exn \<Rightarrow> string" where
  "exn_name TypeError = ''TypeError''"

definition catch_handler :: "targets \<Rightarrow> string \<Rightarrow> exn \<Rightarrow> page \<Rightarrow> page" where
  "catch_handler tg blockId e s =
     snd (renderContentBlock tg error_payload
            (console_out Error
               [''Content Block: Failed to load content for block:'', blockId, exn_name e] s))"

text \<open>
  The chain \<^verbatim>\<open>.then(...).catch(...)\<close>: the first callback renders the data; the second
  runs when the promise was rejected or when the first callback threw.
\<close>

fun run_reaction :: "settlement \<Rightarrow> reaction \<Rightarrow> page \<Rightarrow> page" where
  "run_reaction (Fulfilled v) (Then_render_catch tg blockId) s =
     (case renderContentBlock tg (payload_of v) s of
        (Returned, s1) \<Rightarrow> s1
      | (Threw e, s1) \<Rightarrow> catch_handler tg blockId e s1)"
| "run_reaction (Rejected e) (Then_render_catch tg blockId) s = catch_handler tg blockId e s"
| "run_reaction Pending r s = s"

text \<open>\<^verbatim>\<open>resolve(data)\<close>: settles a pending promise and runs its reactions; no effect otherwise.\<close>

definition resolve :: "nat \<Rightarrow> fetched \<Rightarrow> page \<Rightarrow> page" where
  "resolve p v s =
     (if settlement (promises s p) = Pending
      then fold (run_reaction (Fulfilled v)) (reactions (promises s p))
             (s\<lparr>promises := (promises s)(p := (promises s p)\<lparr>settlement := Fulfilled v\<rparr>)\<rparr>)
      else s)"

fun run_task :: "task \<Rightarrow> page \<Rightarrow> page" where
  "run_task (Resolve_fetch p blockId) s = resolve p (resolved_data blockId) s"
| "run_task (Fade_in m) s = set_opacity m ''1'' s"
| "run_task (Fade_out m) s =
     addEventListener m ''transitionend'' (Remove_self m) (set_opacity m ''0'' s)"

text \<open>
  Time passes to \<open>t\<close>: the timers due by then fire, earliest first and in the order of
  their registration when due together.
\<close>

definition advance_to :: "nat \<Rightarrow> page \<Rightarrow> page" where
  "advance_to t s =
     fold run_task
       (map snd (sort_key fst (filter (\<lambda>(due, tk). due \<le> t) (timers s))))
       (s\<lparr>timers := filter (\<lambda>(due, tk). \<not> due \<le> t) (timers s), now := max (now s) t\<rparr>)"

text \<open>Lines 7 to 9: the three targets are looked up once, when the callback starts.\<close>

definition load_targets :: "page \<Rightarrow> targets" where
  "load_targets s =
     \<lparr>blockTitleElement = getElementById ''blockTitle'' s,
      blockDescriptionElement = getElementById ''blockDescription'' s,
      blockButtonElement = getElementById ''blockButton'' s\<rparr>"

definition on_DOMContentLoaded :: "page \<Rightarrow> page" where
  "on_DOMContentLoaded s =
     (let tg = load_targets s
      in case getElementById ''edsContentBlock'' s of
           Some mainContentBlockContainer \<Rightarrow>
             (let blockId =
                    (case data_block_id (nodes s mainContentBlockContainer) of
                       Some v \<Rightarrow> if v \<noteq> [] then v else ''homepage-hero-block''
                     | None \<Rightarrow> ''homepage-hero-block'');
                  (p, s1) = fetchContentForBlock blockId s
              in s1\<lparr>promises := (promises s1)(p := (promises s1 p)
                      \<lparr>reactions := reactions (promises s1 p) @ [Then_render_catch tg blockId]\<rparr>)\<rparr>)
         | None \<Rightarrow>
             console_out Error
               [''Content Block: Main container element with ID 'edsContentBlock' not found. Ensure your EDS template renders this element.''] s)"

section \<open>Example pages\<close>

text \<open>
  The markup the comments of the script describe (lines 4 to 6, 114 and 173): node 0 is the
  document, node 1 its body, node 2 the container with its \<^verbatim>\<open>data-block-id\<close> attribute, and
  nodes 3 to 5 the title, description and button elements. \<open>bare_page\<close> has no container.
\<close>

definition blank :: node where
  "blank = \<lparr>elem_id = [], data_block_id = None, textContent = [], display = [],
            opacity = [], parentNode = None, listeners = []\<rparr>"

definition element :: "string \<Rightarrow> nid \<Rightarrow> node" where
  "element i p = blank\<lparr>elem_id := i, parentNode := Some p\<rparr>"

definition host_page :: "string option \<Rightarrow> page" where
  "host_page attr =
     \<lparr>nodes = (\<lambda>n. blank)
        (1 := element [] 0,
         2 := (element ''edsContentBlock'' 1)\<lparr>data_block_id := attr\<rparr>,
         3 := element ''blockTitle'' 2,
         4 := element ''blockDescription'' 2,
         5 := element ''blockButton'' 2),
      next_node = 6, body = 1, console = [], location_href = ''/'',
      timers = [], now = 0,
      promises = (\<lambda>p. \<lparr>settlement = Pending, reactions = []\<rparr>), next_promise = 0\<rparr>"

definition bare_page :: page where
  "bare_page =
     \<lparr>nodes = (\<lambda>n. blank)(1 := element [] 0),
      next_node = 2, body = 1, console = [], location_href = ''/'',
      timers = [], now = 0,
      promises = (\<lambda>p. \<lparr>settlement = Pending, reactions = []\<rparr>), next_promise = 0\<rparr>"

definition host_targets :: targets where
  "host_targets =
     \<lparr>blockTitleElement = Some 3, blockDescriptionElement = Some 4, blockButtonElement = Some 5\<rparr>"

section \<open>Notions used in the statements and proofs\<close>

text \<open>
  The effect of one timer callback on the settlement of promise \<open>p\<close>, and the condition
  that the pending timers refer to promises that exist.
\<close>

fun settle_effect :: "nat \<Rightarrow> task \<Rightarrow> settlement \<Rightarrow> settlement" where
  "settle_effect p (Resolve_fetch q b) st =
     (if q = p \<and> st = Pending then Fulfilled (resolved_data b) else st)"
| "settle_effect p (Fade_in m) st = st"
| "settle_effect p (Fade_out m) st = st"

definition promise_refs_ok :: "page \<Rightarrow> bool" where
  "promise_refs_ok s =
     (\<forall>(due, tk) \<in> set (timers s).
        case tk of Resolve_fetch q b \<Rightarrow> q < next_promise s | Fade_in m \<Rightarrow> True | Fade_out m \<Rightarrow> True)"

text \<open>
  The render targets of a page are distinct elements that exist: what the three lookups of
  lines 7 to 9 give (lemma \<open>load_targets_ok\<close>), since the identifiers differ.
\<close>

definition targets_ok :: "targets \<Rightarrow> page \<Rightarrow> bool" where
  "targets_ok tg s =
     ((case blockTitleElement tg of
         None \<Rightarrow> True
       | Some n \<Rightarrow> n < next_node s \<and> blockDescriptionElement tg \<noteq> Some n \<and>
                   blockButtonElement tg \<noteq> Some n) \<and>
      (case blockDescriptionElement tg of
         None \<Rightarrow> True
       | Some n \<Rightarrow> n < next_node s \<and> blockButtonElement tg \<noteq> Some n) \<and>
      (case blockButtonElement tg of
         None \<Rightarrow> True
       | Some n \<Rightarrow> n < next_node s))"

text \<open>The console entries of the two warnings, lines 26 and 34.\<close>

definition title_warning :: "level \<times> string list" where
  "title_warning =
     (Warn, [''Content Block: Title element or content data.title not found. Using default.''])"

definition description_warning :: "level \<times> string list" where
  "description_warning =
     (Warn, [''Content Block: Description element or content data.description not found. Using default.''])"

text \<open>Two payloads with different button texts, and the example page after one and two renders.\<close>

definition first_payload :: content where
  "first_payload =
     \<lparr>title = Str ''T'', description = Str ''D'', buttonText = Str ''First'',
      buttonLink = Str ''/first''\<rparr>"

definition second_payload :: content where
  "second_payload =
     \<lparr>title = Str ''T'', description = Str ''D'', buttonText = Str ''Second'',
      buttonLink = Str ''/second''\<rparr>"

definition once_rendered :: page where
  "once_rendered = snd (renderContentBlock host_targets first_payload (host_page None))"

definition twice_rendered :: page where
  "twice_rendered = snd (renderContentBlock host_targets second_payload once_rendered)"

text \<open>
  A payload without button text, rendered on the example page as loaded and on the example
  page after the first render.
\<close>

definition no_button_payload :: content where
  "no_button_payload =
     \<lparr>title = Str ''T'', description = Str ''D'', buttonText = Undefined, buttonLink = Undefined\<rparr>"

definition hidden_at_load :: page where
  "hidden_at_load = snd (renderContentBlock host_targets no_button_payload (host_page None))"

definition hidden_after_render :: page where
  "hidden_after_render = snd (renderContentBlock host_targets no_button_payload once_rendered)"

text \<open>
  The nodes a timer callback can touch through the render targets of the reactions it runs,
  the nodes a pending timer refers to, and the condition that all of them exist. The effect
  of one timer callback on node \<open>m\<close> when no render touches it.
\<close>

definition target_nodes :: "targets \<Rightarrow> nid list" where
  "target_nodes tg =
     concat (map (\<lambda>x. case x of None \<Rightarrow> [] | Some n \<Rightarrow> [n])
       [blockTitleElement tg, blockDescriptionElement tg, blockButtonElement tg])"

fun reaction_nodes :: "reaction \<Rightarrow> nid list" where
  "reaction_nodes (Then_render_catch tg b) = target_nodes tg"

fun render_nodes :: "page \<Rightarrow> task \<Rightarrow> nid list" where
  "render_nodes s (Resolve_fetch q b) = concat (map reaction_nodes (reactions (promises s q)))"
| "render_nodes s (Fade_in n) = []"
| "render_nodes s (Fade_out n) = []"

fun task_nodes :: "page \<Rightarrow> task \<Rightarrow> nid list" where
  "task_nodes s (Resolve_fetch q b) = render_nodes s (Resolve_fetch q b)"
| "task_nodes s (Fade_in n) = [n]"
| "task_nodes s (Fade_out n) = [n]"

definition node_refs_ok :: "page \<Rightarrow> bool" where
  "node_refs_ok s =
     (\<forall>(due, tk) \<in> set (timers s). \<forall>n \<in> set (task_nodes s tk). n < next_node s)"

fun fade_effect :: "nid \<Rightarrow> task \<Rightarrow> node \<Rightarrow> node" where
  "fade_effect m (Fade_in n) x = (if n = m then x\<lparr>opacity := ''1''\<rparr> else x)"
| "fade_effect m (Fade_out n) x =
     (if n = m
      then x\<lparr>opacity := ''0'', listeners := listeners x @ [(''transitionend'', Remove_self m)]\<rparr>
      else x)"
| "fade_effect m (Resolve_fetch q b) x = x"

section \<open>Basic facts\<close>

lemmas prim_defs = console_out_def set_textContent_def set_display_def set_opacity_def
  set_parentNode_def cloneNode_def replaceChild_def addEventListener_def createElement_def
  setTimeout_def

lemma console_out_proj [simp]:
  "nodes (console_out l a s) = nodes s" "next_node (console_out l a s) = next_node s"
  "body (console_out l a s) = body s" "location_href (console_out l a s) = location_href s"
  "timers (console_out l a s) = timers s" "now (console_out l a s) = now s"
  "promises (console_out l a s) = promises s" "next_promise (console_out l a s) = next_promise s"
  "console (console_out l a s) = console s @ [(l, a)]"
  by (simp_all add: console_out_def)

lemma set_textContent_proj [simp]:
  "next_node (set_textContent n v s) = next_node s"
  "body (set_textContent n v s) = body s" "location_href (set_textContent n v s) = location_href s"
  "timers (set_textContent n v s) = timers s" "now (set_textContent n v s) = now s"
  "promises (set_textContent n v s) = promises s" "next_promise (set_textContent n v s) = next_promise s"
  "console (set_textContent n v s) = console s"
  "nodes (set_textContent n v s) = (nodes s)(n := (nodes s n)\<lparr>textContent := v\<rparr>)"
  by (simp_all add: set_textContent_def)

lemma set_display_proj [simp]:
  "next_node (set_display n v s) = next_node s"
  "body (set_display n v s) = body s" "location_href (set_display n v s) = location_href s"
  "timers (set_display n v s) = timers s" "now (set_display n v s) = now s"
  "promises (set_display n v s) = promises s" "next_promise (set_display n v s) = next_promise s"
  "console (set_display n v s) = console s"
  "nodes (set_display n v s) = (nodes s)(n := (nodes s n)\<lparr>display := v\<rparr>)"
  by (simp_all add: set_display_def)

lemma set_opacity_proj [simp]:
  "next_node (set_opacity n v s) = next_node s"
  "body (set_opacity n v s) = body s" "location_href (set_opacity n v s) = location_href s"
  "timers (set_opacity n v s) = timers s" "now (set_opacity n v s) = now s"
  "promises (set_opacity n v s) = promises s" "next_promise (set_opacity n v s) = next_promise s"
  "console (set_opacity n v s) = console s"
  "nodes (set_opacity n v s) = (nodes s)(n := (nodes s n)\<lparr>opacity := v\<rparr>)"
  by (simp_all add: set_opacity_def)

lemma set_parentNode_proj [simp]:
  "next_node (set_parentNode n v s) = next_node s"
  "body (set_parentNode n v s) = body s" "location_href (set_parentNode n v s) = location_href s"
  "timers (set_parentNode n v s) = timers s" "now (set_parentNode n v s) = now s"
  "promises (set_parentNode n v s) = promises s" "next_promise (set_parentNode n v s) = next_promise s"
  "console (set_parentNode n v s) = console s"
  "nodes (set_parentNode n v s) = (nodes s)(n := (nodes s n)\<lparr>parentNode := v\<rparr>)"
  by (simp_all add: set_parentNode_def)

lemma addEventListener_proj [simp]:
  "next_node (addEventListener n ev l s) = next_node s"
  "body (addEventListener n ev l s) = body s"
  "location_href (addEventListener n ev l s) = location_href s"
  "timers (addEventListener n ev l s) = timers s" "now (addEventListener n ev l s) = now s"
  "promises (addEventListener n ev l s) = promises s"
  "next_promise (addEventListener n ev l s) = next_promise s"
  "console (addEventListener n ev l s) = console s"
  "nodes (addEventListener n ev l s) =
     (nodes s)(n := (nodes s n)\<lparr>listeners := listeners (nodes s n) @ [(ev, l)]\<rparr>)"
  by (simp_all add: addEventListener_def)

lemma setTimeout_proj [simp]:
  "nodes (setTimeout tk dl s) = nodes s" "next_node (setTimeout tk dl s) = next_node s"
  "body (setTimeout tk dl s) = body s" "location_href (setTimeout tk dl s) = location_href s"
  "timers (setTimeout tk dl s) = timers s @ [(now s + dl, tk)]" "now (setTimeout tk dl s) = now s"
  "promises (setTimeout tk dl s) = promises s" "next_promise (setTimeout tk dl s) = next_promise s"
  "console (setTimeout tk dl s) = console s"
  by (simp_all add: setTimeout_def)

lemma cloneNode_proj [simp]:
  "fst (cloneNode n s) = next_node s"
  "next_node (snd (cloneNode n s)) = Suc (next_node s)"
  "body (snd (cloneNode n s)) = body s" "location_href (snd (cloneNode n s)) = location_href s"
  "timers (snd (cloneNode n s)) = timers s" "now (snd (cloneNode n s)) = now s"
  "promises (snd (cloneNode n s)) = promises s"
  "next_promise (snd (cloneNode n s)) = next_promise s"
  "console (snd (cloneNode n s)) = console s"
  "nodes (snd (cloneNode n s)) =
     (nodes s)(next_node s := (nodes s n)\<lparr>parentNode := None, listeners := []\<rparr>)"
  by (simp_all add: cloneNode_def)

lemma createElement_proj [simp]:
  "fst (createElement s) = next_node s"
  "next_node (snd (createElement s)) = Suc (next_node s)"
  "body (snd (createElement s)) = body s" "location_href (snd (createElement s)) = location_href s"
  "timers (snd (createElement s)) = timers s" "now (snd (createElement s)) = now s"
  "promises (snd (createElement s)) = promises s"
  "next_promise (snd (createElement s)) = next_promise s"
  "console (snd (createElement s)) = console s"
  "nodes (snd (createElement s)) = (nodes s)(next_node s := blank)"
  by (simp_all add: createElement_def blank_def)

lemma replaceChild_proj [simp]:
  "next_node (replaceChild p new old s) = next_node s"
  "body (replaceChild p new old s) = body s"
  "location_href (replaceChild p new old s) = location_href s"
  "timers (replaceChild p new old s) = timers s" "now (replaceChild p new old s) = now s"
  "promises (replaceChild p new old s) = promises s"
  "next_promise (replaceChild p new old s) = next_promise s"
  "console (replaceChild p new old s) = console s"
  by (simp_all add: replaceChild_def)

lemma render_title_proj [simp]:
  "next_node (render_title tg d s) = next_node s"
  "body (render_title tg d s) = body s"
  "location_href (render_title tg d s) = location_href s"
  "timers (render_title tg d s) = timers s" "now (render_title tg d s) = now s"
  "promises (render_title tg d s) = promises s"
  "next_promise (render_title tg d s) = next_promise s"
  by (simp_all add: render_title_def Let_def split: option.splits)

lemma render_description_proj [simp]:
  "next_node (render_description tg d s) = next_node s"
  "body (render_description tg d s) = body s"
  "location_href (render_description tg d s) = location_href s"
  "timers (render_description tg d s) = timers s" "now (render_description tg d s) = now s"
  "promises (render_description tg d s) = promises s"
  "next_promise (render_description tg d s) = next_promise s"
  by (simp_all add: render_description_def Let_def split: option.splits)

lemma render_button_unfold:
  "render_button tg d s =
     (case blockButtonElement tg of
        None \<Rightarrow> (Returned, s)
      | Some b \<Rightarrow>
          if truthy (buttonText d) then
            (let s3 = snd (cloneNode b (set_display b ''block'' (set_textContent b (str_of (buttonText d)) s)))
             in case parentNode (nodes s3 b) of
                  None \<Rightarrow> (Threw TypeError, s3)
                | Some p \<Rightarrow>
                    (Returned,
                     addEventListener (next_node s) ''click'' (Click_action d)
                       (replaceChild p (next_node s) b s3)))
          else (Returned, set_display b ''none'' s))"
  by (simp add: render_button_def Let_def cloneNode_def split: option.splits)

lemma render_button_proj [simp]:
  "body (snd (render_button tg d s)) = body s"
  "location_href (snd (render_button tg d s)) = location_href s"
  "timers (snd (render_button tg d s)) = timers s" "now (snd (render_button tg d s)) = now s"
  "promises (snd (render_button tg d s)) = promises s"
  "next_promise (snd (render_button tg d s)) = next_promise s"
  by (simp_all add: render_button_unfold Let_def split: option.splits)

lemma renderContentBlock_proj [simp]:
  "body (snd (renderContentBlock tg d s)) = body s"
  "location_href (snd (renderContentBlock tg d s)) = location_href s"
  "timers (snd (renderContentBlock tg d s)) = timers s"
  "now (snd (renderContentBlock tg d s)) = now s"
  "promises (snd (renderContentBlock tg d s)) = promises s"
  "next_promise (snd (renderContentBlock tg d s)) = next_promise s"
  by (simp_all add: renderContentBlock_def)

lemma catch_handler_proj [simp]:
  "body (catch_handler tg b e s) = body s"
  "location_href (catch_handler tg b e s) = location_href s"
  "timers (catch_handler tg b e s) = timers s"
  "now (catch_handler tg b e s) = now s"
  "promises (catch_handler tg b e s) = promises s"
  "next_promise (catch_handler tg b e s) = next_promise s"
  by (simp_all add: catch_handler_def)

lemma run_reaction_proj [simp]:
  "body (run_reaction st r s) = body s"
  "location_href (run_reaction st r s) = location_href s"
  "timers (run_reaction st r s) = timers s"
  "now (run_reaction st r s) = now s"
  "promises (run_reaction st r s) = promises s"
  "next_promise (run_reaction st r s) = next_promise s"
proof -
  obtain tg b where r: "r = Then_render_catch tg b" by (cases r)
  show "body (run_reaction st r s) = body s"
    "location_href (run_reaction st r s) = location_href s"
    "timers (run_reaction st r s) = timers s"
    "now (run_reaction st r s) = now s"
    "promises (run_reaction st r s) = promises s"
    "next_promise (run_reaction st r s) = next_promise s"
    unfolding r
    by (cases st; simp add: split_beta split: outcome.splits)+
qed

lemma fold_run_reaction_proj [simp]:
  "body (fold (run_reaction st) rs s) = body s"
  "location_href (fold (run_reaction st) rs s) = location_href s"
  "timers (fold (run_reaction st) rs s) = timers s"
  "now (fold (run_reaction st) rs s) = now s"
  "promises (fold (run_reaction st) rs s) = promises s"
  "next_promise (fold (run_reaction st) rs s) = next_promise s"
  by (induction rs arbitrary: s; simp)+

lemma resolve_proj [simp]:
  "body (resolve p v s) = body s"
  "location_href (resolve p v s) = location_href s"
  "timers (resolve p v s) = timers s"
  "now (resolve p v s) = now s"
  "next_promise (resolve p v s) = next_promise s"
  by (simp_all add: resolve_def)

lemma resolve_settlement:
  "settlement (promises (resolve p v s) q) =
     (if q = p \<and> settlement (promises s p) = Pending then Fulfilled v
      else settlement (promises s q))"
  by (simp add: resolve_def)

lemma resolve_reactions [simp]:
  "reactions (promises (resolve p v s) q) = reactions (promises s q)"
  by (simp add: resolve_def)

lemma run_task_proj [simp]:
  "body (run_task tk s) = body s"
  "location_href (run_task tk s) = location_href s"
  "timers (run_task tk s) = timers s"
  "now (run_task tk s) = now s"
  "next_promise (run_task tk s) = next_promise s"
  by (cases tk; simp)+

lemma run_task_settlement:
  "settlement (promises (run_task tk s) p) = settle_effect p tk (settlement (promises s p))"
  by (cases tk) (auto simp: resolve_settlement)

lemma fold_run_task_proj [simp]:
  "body (fold run_task tks s) = body s"
  "location_href (fold run_task tks s) = location_href s"
  "timers (fold run_task tks s) = timers s"
  "now (fold run_task tks s) = now s"
  "next_promise (fold run_task tks s) = next_promise s"
  by (induction tks arbitrary: s; simp)+

lemma fold_run_task_settlement:
  "settlement (promises (fold run_task tks s) p) =
     fold (settle_effect p) tks (settlement (promises s p))"
  by (induction tks arbitrary: s) (simp_all add: run_task_settlement)

lemma advance_to_settlement:
  "settlement (promises (advance_to t s) p) =
     fold (settle_effect p)
       (map snd (sort_key fst (filter (\<lambda>(due, tk). due \<le> t) (timers s))))
       (settlement (promises s p))"
  by (simp add: advance_to_def fold_run_task_settlement)

lemma advance_to_proj [simp]:
  "body (advance_to t s) = body s"
  "location_href (advance_to t s) = location_href s"
  "timers (advance_to t s) = filter (\<lambda>(due, tk). \<not> due \<le> t) (timers s)"
  "now (advance_to t s) = max (now s) t"
  "next_promise (advance_to t s) = next_promise s"
  by (simp_all add: advance_to_def)

lemma settle_effect_settled: "st \<noteq> Pending \<Longrightarrow> fold (settle_effect p) tks st = st"
proof (induction tks)
  case Nil
  then show ?case by simp
next
  case (Cons tk tks)
  then show ?case by (cases tk) simp_all
qed

lemma settle_effect_not_rejected:
  "st \<noteq> Rejected e \<Longrightarrow> fold (settle_effect p) tks st \<noteq> Rejected e"
proof (induction tks arbitrary: st)
  case Nil
  then show ?case by simp
next
  case (Cons tk tks)
  then show ?case by (cases tk) simp_all
qed

lemma settle_effect_pending:
  assumes "\<forall>b'. Resolve_fetch p b' \<in> set tks \<longrightarrow> b' = b"
  shows "fold (settle_effect p) tks Pending =
           (if Resolve_fetch p b \<in> set tks then Fulfilled (resolved_data b) else Pending)"
  using assms
proof (induction tks)
  case Nil
  then show ?case by simp
next
  case (Cons tk tks)
  show ?case
  proof (cases "tk = Resolve_fetch p b")
    case True
    then show ?thesis by (simp add: settle_effect_settled)
  next
    case False
    with Cons.prems have "settle_effect p tk Pending = Pending"
      by (cases tk) auto
    with Cons False show ?thesis by simp
  qed
qed

lemma fetch_parts:
  "fst (fetchContentForBlock b s) = next_promise s"
  "timers (snd (fetchContentForBlock b s)) = timers s @ [(now s + 500, Resolve_fetch (next_promise s) b)]"
  "settlement (promises (snd (fetchContentForBlock b s)) (next_promise s)) = Pending"
  "reactions (promises (snd (fetchContentForBlock b s)) (next_promise s)) = []"
  "next_promise (snd (fetchContentForBlock b s)) = Suc (next_promise s)"
  "nodes (snd (fetchContentForBlock b s)) = nodes s"
  "now (snd (fetchContentForBlock b s)) = now s"
  by (simp_all add: fetchContentForBlock_def Let_def)

lemma due_tasks_set:
  "set (map snd (sort_key fst (filter (\<lambda>(due, tk). due \<le> t) ts))) =
     snd ` {x \<in> set ts. fst x \<le> t}"
  by (auto simp: case_prod_unfold)

lemma host_page_lookup:
  "getElementById ''edsContentBlock'' (host_page a) = Some 2"
  "getElementById ''blockTitle'' (host_page a) = Some 3"
  "getElementById ''blockDescription'' (host_page a) = Some 4"
  "getElementById ''blockButton'' (host_page a) = Some 5"
  by (simp_all add: getElementById_def host_page_def element_def blank_def upt_rec)

lemma resolved_data_unknown:
  assumes "X \<notin> set (map fst mockContentData)" and "X \<notin> set object_prototype_keys"
  shows "resolved_data X = Entry (fallback X)"
proof -
  from assms(1) have "map_of mockContentData X = None"
    by (simp add: map_of_eq_None_iff)
  with assms(2) show ?thesis
    by (simp add: resolved_data_def get_property_def)
qed

lemma getElementById_Some:
  assumes "getElementById i s = Some n"
  shows "n < next_node s" and "elem_id (nodes s n) = i" and "parentNode (nodes s n) \<noteq> None"
  using assms by (auto simp: getElementById_def find_Some_iff)

lemma getElementById_inj:
  assumes "getElementById i s = Some n" and "getElementById j s = Some n"
  shows "i = j"
  using getElementById_Some(2) [OF assms(1)] getElementById_Some(2) [OF assms(2)] by simp

lemma load_targets_ok: "targets_ok (load_targets s) s"
  by (auto simp: targets_ok_def load_targets_def split: option.splits
      dest: getElementById_Some(1) getElementById_inj)

lemma targets_ok_mono:
  assumes "targets_ok tg s" and "next_node s \<le> next_node s'"
  shows "targets_ok tg s'"
  using assms by (auto simp: targets_ok_def split: option.splits)

lemma render_title_nodes:
  "nodes (render_title tg d s) =
     (case blockTitleElement tg of
        None \<Rightarrow> nodes s
      | Some n \<Rightarrow> (nodes s)(n := (nodes s n)
           \<lparr>textContent := (if truthy (title d) then str_of (title d)
                            else ''Default Component Title'')\<rparr>))"
  by (simp add: render_title_def Let_def split: option.splits)

lemma render_title_console:
  "console (render_title tg d s) =
     console s @ (if blockTitleElement tg \<noteq> None \<and> truthy (title d) then [] else [title_warning])"
  by (simp add: render_title_def Let_def title_warning_def split: option.splits)

lemma render_description_nodes:
  "nodes (render_description tg d s) =
     (case blockDescriptionElement tg of
        None \<Rightarrow> nodes s
      | Some n \<Rightarrow> (nodes s)(n := (nodes s n)
           \<lparr>textContent := (if truthy (description d) then str_of (description d)
                            else ''Default description text for the component.'')\<rparr>))"
  by (simp add: render_description_def Let_def split: option.splits)

lemma render_description_console:
  "console (render_description tg d s) =
     console s @ (if blockDescriptionElement tg \<noteq> None \<and> truthy (description d) then []
                  else [description_warning])"
  by (simp add: render_description_def Let_def description_warning_def split: option.splits)

lemma render_button_console [simp]: "console (snd (render_button tg d s)) = console s"
  by (simp add: render_button_unfold Let_def split: option.splits)

lemma render_button_other:
  assumes "blockButtonElement tg \<noteq> Some n" and "n \<noteq> next_node s"
  shows "nodes (snd (render_button tg d s)) n = nodes s n"
  using assms
  by (simp add: render_button_unfold Let_def replaceChild_def split: option.splits)

lemma render_button_hide:
  assumes "\<not> truthy (buttonText d)"
  shows "render_button tg d s =
           (Returned, case blockButtonElement tg of None \<Rightarrow> s | Some b \<Rightarrow> set_display b ''none'' s)"
  using assms by (simp add: render_button_def split: option.splits)

lemma render_button_next_node:
  "next_node (snd (render_button tg d s)) =
     (if blockButtonElement tg \<noteq> None \<and> truthy (buttonText d) then Suc (next_node s)
      else next_node s)"
  by (simp add: render_button_unfold Let_def split: option.splits)

lemma render_title_other:
  "blockTitleElement tg \<noteq> Some n \<Longrightarrow> nodes (render_title tg d s) n = nodes s n"
  by (simp add: render_title_nodes split: option.splits)

lemma render_description_other:
  "blockDescriptionElement tg \<noteq> Some n \<Longrightarrow> nodes (render_description tg d s) n = nodes s n"
  by (simp add: render_description_nodes split: option.splits)

lemma render_title_keeps:
  "parentNode (nodes (render_title tg d s) n) = parentNode (nodes s n)"
  "listeners (nodes (render_title tg d s) n) = listeners (nodes s n)"
  "display (nodes (render_title tg d s) n) = display (nodes s n)"
  "opacity (nodes (render_title tg d s) n) = opacity (nodes s n)"
  by (simp_all add: render_title_nodes split: option.splits)

lemma render_description_keeps:
  "parentNode (nodes (render_description tg d s) n) = parentNode (nodes s n)"
  "listeners (nodes (render_description tg d s) n) = listeners (nodes s n)"
  "display (nodes (render_description tg d s) n) = display (nodes s n)"
  "opacity (nodes (render_description tg d s) n) = opacity (nodes s n)"
  by (simp_all add: render_description_nodes split: option.splits)

lemma showTemporaryMessage_proj [simp]:
  "next_node (showTemporaryMessage msg s) = Suc (next_node s)"
  "body (showTemporaryMessage msg s) = body s"
  "location_href (showTemporaryMessage msg s) = location_href s"
  "now (showTemporaryMessage msg s) = now s"
  "promises (showTemporaryMessage msg s) = promises s"
  "next_promise (showTemporaryMessage msg s) = next_promise s"
  "console (showTemporaryMessage msg s) = console s"
  "timers (showTemporaryMessage msg s) =
     timers s @ [(now s + 10, Fade_in (next_node s)), (now s + 2000, Fade_out (next_node s))]"
  "nodes (showTemporaryMessage msg s) =
     (nodes s)(next_node s := blank\<lparr>textContent := msg, opacity := ''0'', parentNode := Some (body s)\<rparr>)"
  by (simp_all add: showTemporaryMessage_def createElement_def Let_def blank_def fun_eq_iff)

lemma render_button_installs:
  assumes "blockButtonElement tg = Some b" and "truthy (buttonText d)"
    and "parentNode (nodes s b) = Some p" and "b \<noteq> next_node s"
  shows "fst (render_button tg d s) = Returned"
    and "nodes (snd (render_button tg d s)) (next_node s) =
           (nodes s b)\<lparr>textContent := str_of (buttonText d), display := ''block'',
              parentNode := Some p, listeners := [(''click'', Click_action d)]\<rparr>"
    and "nodes (snd (render_button tg d s)) b =
           (nodes s b)\<lparr>textContent := str_of (buttonText d), display := ''block'',
              parentNode := None\<rparr>"
  using assms by (simp_all add: render_button_unfold Let_def replaceChild_def)

lemma render_button_throws:
  assumes "blockButtonElement tg = Some b" and "truthy (buttonText d)" and "b \<noteq> next_node s"
  shows "fst (render_button tg d s) = Returned \<longleftrightarrow> parentNode (nodes s b) \<noteq> None"
  using assms by (auto simp: render_button_unfold Let_def split: option.splits)

lemma target_nodes_iff:
  "m \<notin> set (target_nodes tg) \<longleftrightarrow>
     blockTitleElement tg \<noteq> Some m \<and> blockDescriptionElement tg \<noteq> Some m \<and>
     blockButtonElement tg \<noteq> Some m"
  by (auto simp: target_nodes_def split: option.splits)

lemma render_next_node_mono: "next_node s \<le> next_node (snd (renderContentBlock tg d s))"
  by (simp add: renderContentBlock_def render_button_next_node)

lemma render_untouched:
  assumes "m \<notin> set (target_nodes tg)" and "m < next_node s"
  shows "nodes (snd (renderContentBlock tg d s)) m = nodes s m"
  using assms
  by (simp add: renderContentBlock_def target_nodes_iff render_button_other
      render_description_other render_title_other)

lemma catch_handler_untouched:
  assumes "m \<notin> set (target_nodes tg)" and "m < next_node s"
  shows "nodes (catch_handler tg b e s) m = nodes s m"
    and "next_node s \<le> next_node (catch_handler tg b e s)"
proof -
  let ?s1 = "console_out Error
      [''Content Block: Failed to load content for block:'', b, exn_name e] s"
  have "m < next_node ?s1" using assms(2) by simp
  from render_untouched [OF assms(1) this]
  show "nodes (catch_handler tg b e s) m = nodes s m"
    by (simp add: catch_handler_def)
  show "next_node s \<le> next_node (catch_handler tg b e s)"
    using render_next_node_mono [of ?s1 tg error_payload] by (simp add: catch_handler_def)
qed

lemma run_reaction_untouched:
  assumes "m \<notin> set (reaction_nodes r)" and "m < next_node s"
  shows "nodes (run_reaction st r s) m = nodes s m \<and> next_node s \<le> next_node (run_reaction st r s)"
proof -
  obtain tg b where r: "r = Then_render_catch tg b" by (cases r)
  from assms(1) have t: "m \<notin> set (target_nodes tg)" by (simp add: r)
  show ?thesis
  proof (cases st)
    case Pending
    then show ?thesis by (simp add: r)
  next
    case (Fulfilled v)
    let ?r = "renderContentBlock tg (payload_of v) s"
    have u: "nodes (snd ?r) m = nodes s m" by (rule render_untouched [OF t assms(2)])
    have mono: "next_node s \<le> next_node (snd ?r)" by (rule render_next_node_mono)
    show ?thesis
    proof (cases "fst ?r")
      case Returned
      then have "run_reaction st r s = snd ?r"
        by (simp add: r Fulfilled split_beta)
      with u mono show ?thesis by simp
    next
      case (Threw e)
      then have "run_reaction st r s = catch_handler tg b e (snd ?r)"
        by (simp add: r Fulfilled split_beta)
      moreover have "m < next_node (snd ?r)" using mono assms(2) by simp
      ultimately show ?thesis
        using catch_handler_untouched [OF t, of "snd ?r" b e] u mono by simp
    qed
  next
    case (Rejected e)
    then show ?thesis
      using catch_handler_untouched [OF t assms(2), of b e] by (simp add: r)
  qed
qed

lemma fold_run_reaction_untouched:
  assumes "\<forall>r \<in> set rs. m \<notin> set (reaction_nodes r)" and "m < next_node s"
  shows "nodes (fold (run_reaction st) rs s) m = nodes s m \<and>
         next_node s \<le> next_node (fold (run_reaction st) rs s)"
  using assms
proof (induction rs arbitrary: s)
  case Nil
  then show ?case by simp
next
  case (Cons r rs)
  from Cons.prems have a: "m \<notin> set (reaction_nodes r)" by simp
  note h = run_reaction_untouched [OF a Cons.prems(2), of st]
  from h Cons.prems(2) have lt: "m < next_node (run_reaction st r s)" by simp
  from Cons.prems(1) have rest: "\<forall>r \<in> set rs. m \<notin> set (reaction_nodes r)" by simp
  from Cons.IH [OF rest lt] h show ?case by simp
qed

lemma run_task_reactions [simp]:
  "reactions (promises (run_task tk s) q) = reactions (promises s q)"
  by (cases tk) simp_all

lemma render_nodes_run_task [simp]: "render_nodes (run_task tk s) tk' = render_nodes s tk'"
  by (cases tk') simp_all

lemma run_task_node:
  assumes "m \<notin> set (render_nodes s tk)" and "m < next_node s"
  shows "nodes (run_task tk s) m = fade_effect m tk (nodes s m) \<and>
         next_node s \<le> next_node (run_task tk s)"
proof (cases tk)
  case (Resolve_fetch q b)
  let ?s1 = "s\<lparr>promises := (promises s)(q := (promises s q)
      \<lparr>settlement := Fulfilled (resolved_data b)\<rparr>)\<rparr>"
  from assms(1) have a: "\<forall>r \<in> set (reactions (promises s q)). m \<notin> set (reaction_nodes r)"
    by (simp add: Resolve_fetch)
  have lt: "m < next_node ?s1" using assms(2) by simp
  from fold_run_reaction_untouched [OF a lt, of "Fulfilled (resolved_data b)"]
  show ?thesis by (simp add: Resolve_fetch resolve_def)
next
  case (Fade_in n)
  then show ?thesis by simp
next
  case (Fade_out n)
  then show ?thesis by simp
qed

lemma fold_run_task_node:
  assumes "\<forall>tk \<in> set tks. m \<notin> set (render_nodes s tk)" and "m < next_node s"
  shows "nodes (fold run_task tks s) m = fold (fade_effect m) tks (nodes s m)"
  using assms
proof (induction tks arbitrary: s)
  case Nil
  then show ?case by simp
next
  case (Cons tk tks)
  from Cons.prems have a: "m \<notin> set (render_nodes s tk)" by simp
  note h = run_task_node [OF a Cons.prems(2)]
  from h Cons.prems(2) have lt: "m < next_node (run_task tk s)" by simp
  from Cons.prems(1) have rest: "\<forall>tk' \<in> set tks. m \<notin> set (render_nodes (run_task tk s) tk')"
    by simp
  from Cons.IH [OF rest lt] h show ?case by simp
qed

lemma advance_to_node:
  assumes "\<forall>(due, tk) \<in> set (timers s). m \<notin> set (render_nodes s tk)" and "m < next_node s"
  shows "nodes (advance_to t s) m =
           fold (fade_effect m)
             (map snd (sort_key fst (filter (\<lambda>(due, tk). due \<le> t) (timers s)))) (nodes s m)"
proof -
  let ?s0 = "s\<lparr>timers := filter (\<lambda>(due, tk). \<not> due \<le> t) (timers s), now := max (now s) t\<rparr>"
  let ?tks = "map snd (sort_key fst (filter (\<lambda>(due, tk). due \<le> t) (timers s)))"
  have rn: "render_nodes ?s0 tk = render_nodes s tk" for tk by (cases tk) simp_all
  have a: "\<forall>tk \<in> set ?tks. m \<notin> set (render_nodes ?s0 tk)"
    using assms(1) by (auto simp: rn)
  have lt: "m < next_node ?s0" using assms(2) by simp
  from fold_run_task_node [OF a lt] show ?thesis by (simp add: advance_to_def)
qed

lemma fold_filter_id:
  assumes "\<forall>x \<in> set xs. \<not> P x \<longrightarrow> f x = id"
  shows "fold f xs = fold f (filter P xs)"
  using assms by (induction xs) auto

lemma fade_effect_other:
  assumes "tk \<noteq> Fade_in m" and "tk \<noteq> Fade_out m"
  shows "fade_effect m tk = id"
  using assms by (cases tk) (auto simp: fun_eq_iff)

lemma due_fades:
  fixes m :: nid and t :: nat
  assumes "\<forall>(due, tk) \<in> set ts. tk \<noteq> Fade_in m \<and> tk \<noteq> Fade_out m"
  shows "filter (\<lambda>tk. tk = Fade_in m \<or> tk = Fade_out m)
           (map snd (sort_key fst (filter (\<lambda>(due, tk). due \<le> t)
              (ts @ [(a + 10, Fade_in m), (a + 2000, Fade_out m)])))) =
         (if t < a + 10 then [] else if t < a + 2000 then [Fade_in m] else [Fade_in m, Fade_out m])"
proof -
  let ?P = "\<lambda>x. snd x = Fade_in m \<or> snd x = Fade_out m"
  let ?F = "filter (\<lambda>(due, tk). due \<le> t) (ts @ [(a + 10, Fade_in m), (a + 2000, Fade_out m)])"
  have old: "filter ?P (filter (\<lambda>(due, tk). due \<le> t) ts) = []"
    using assms by (auto simp: filter_empty_conv)
  have "filter (\<lambda>tk. tk = Fade_in m \<or> tk = Fade_out m) (map snd (sort_key fst ?F)) =
        map snd (filter ?P (sort_key fst ?F))"
    by (simp add: filter_map comp_def)
  also have "\<dots> = map snd (sort_key fst (filter ?P ?F))"
    by (simp only: filter_sort)
  also have "filter ?P ?F =
      filter (\<lambda>(due, tk). due \<le> t) [(a + 10, Fade_in m), (a + 2000, Fade_out m)]"
    using old by simp
  also have "map snd (sort_key fst \<dots>) =
      (if t < a + 10 then [] else if t < a + 2000 then [Fade_in m] else [Fade_in m, Fade_out m])"
    by simp
  finally show ?thesis .
qed

lemma run_listener_proj [simp]:
  "body (run_listener l s) = body s"
  "location_href (run_listener l s) = location_href s"
  "now (run_listener l s) = now s"
  "promises (run_listener l s) = promises s"
  "next_promise (run_listener l s) = next_promise s"
  by (cases l; simp)+

lemma fold_run_listener_proj [simp]:
  "body (fold run_listener ls s) = body s"
  "location_href (fold run_listener ls s) = location_href s"
  "now (fold run_listener ls s) = now s"
  "promises (fold run_listener ls s) = promises s"
  "next_promise (fold run_listener ls s) = next_promise s"
  by (induction ls arbitrary: s; simp)+

lemma dispatchEvent_proj [simp]:
  "body (dispatchEvent ev n s) = body s"
  "location_href (dispatchEvent ev n s) = location_href s"
  "now (dispatchEvent ev n s) = now s"
  "promises (dispatchEvent ev n s) = promises s"
  "next_promise (dispatchEvent ev n s) = next_promise s"
  by (simp_all add: dispatchEvent_def)

lemma run_reaction_next_node_mono: "next_node s \<le> next_node (run_reaction st r s)"
proof -
  obtain tg b where r: "r = Then_render_catch tg b" by (cases r)
  have c: "next_node x \<le> next_node (catch_handler tg b e x)" for x e
    using render_next_node_mono [of "console_out Error
      [''Content Block: Failed to load content for block:'', b, exn_name e] x" tg error_payload]
    by (simp add: catch_handler_def)
  show ?thesis
  proof (cases st)
    case Pending
    then show ?thesis by (simp add: r)
  next
    case (Fulfilled v)
    let ?r = "renderContentBlock tg (payload_of v) s"
    have mono: "next_node s \<le> next_node (snd ?r)" by (rule render_next_node_mono)
    show ?thesis
    proof (cases "fst ?r")
      case Returned
      then show ?thesis using mono by (simp add: r Fulfilled split_beta)
    next
      case (Threw e)
      then show ?thesis using mono c [of "snd ?r" e] by (simp add: r Fulfilled split_beta)
    qed
  next
    case (Rejected e)
    then show ?thesis using c [of s e] by (simp add: r)
  qed
qed

lemma fold_run_reaction_next_node_mono: "next_node s \<le> next_node (fold (run_reaction st) rs s)"
proof (induction rs arbitrary: s)
  case Nil
  then show ?case by simp
next
  case (Cons r rs)
  from run_reaction_next_node_mono [of s st r] Cons [of "run_reaction st r s"]
  show ?case by simp
qed

lemma run_task_next_node_mono: "next_node s \<le> next_node (run_task tk s)"
proof (cases tk)
  case (Resolve_fetch q b)
  then show ?thesis
    using fold_run_reaction_next_node_mono
      [of "s\<lparr>promises := (promises s)(q := (promises s q)
          \<lparr>settlement := Fulfilled (resolved_data b)\<rparr>)\<rparr>"]
    by (simp add: resolve_def)
qed simp_all

lemma fold_run_task_next_node_mono: "next_node s \<le> next_node (fold run_task tks s)"
proof (induction tks arbitrary: s)
  case Nil
  then show ?case by simp
next
  case (Cons tk tks)
  from run_task_next_node_mono [of s tk] Cons [of "run_task tk s"]
  show ?case by simp
qed

lemma fold_run_task_reactions [simp]:
  "reactions (promises (fold run_task tks s) q) = reactions (promises s q)"
  by (induction tks arbitrary: s) simp_all

lemma advance_to_reactions [simp]:
  "reactions (promises (advance_to t s) q) = reactions (promises s q)"
  by (simp add: advance_to_def)

lemma advance_to_next_node_mono: "next_node s \<le> next_node (advance_to t s)"
  using fold_run_task_next_node_mono
    [of "s\<lparr>timers := filter (\<lambda>(due, tk). \<not> due \<le> t) (timers s), now := max (now s) t\<rparr>"]
  by (simp add: advance_to_def)

lemma task_nodes_cong:
  assumes "\<And>q. reactions (promises s' q) = reactions (promises s q)"
  shows "task_nodes s' tk = task_nodes s tk"
  using assms by (cases tk) simp_all

text \<open>The conditions of the theorems hold on the pages the script reaches.\<close>

lemma promise_refs_ok_iff:
  "promise_refs_ok s \<longleftrightarrow>
     (\<forall>due q b. (due, Resolve_fetch q b) \<in> set (timers s) \<longrightarrow> q < next_promise s)"
  unfolding promise_refs_ok_def
proof
  assume a: "\<forall>(due, tk)\<in>set (timers s).
       case tk of Resolve_fetch q b \<Rightarrow> q < next_promise s | _ \<Rightarrow> True"
  show "\<forall>due q b. (due, Resolve_fetch q b) \<in> set (timers s) \<longrightarrow> q < next_promise s"
  proof (intro allI impI)
    fix due q b
    assume "(due, Resolve_fetch q b) \<in> set (timers s)"
    with a show "q < next_promise s" by fastforce
  qed
next
  assume a: "\<forall>due q b. (due, Resolve_fetch q b) \<in> set (timers s) \<longrightarrow> q < next_promise s"
  show "\<forall>(due, tk)\<in>set (timers s).
       case tk of Resolve_fetch q b \<Rightarrow> q < next_promise s | _ \<Rightarrow> True"
  proof (clarify)
    fix due tk
    assume "(due, tk) \<in> set (timers s)"
    with a show "case tk of Resolve_fetch q b \<Rightarrow> q < next_promise s | _ \<Rightarrow> True"
      by (cases tk) auto
  qed
qed

lemma refs_ok_no_timers:
  assumes "timers s = []"
  shows "promise_refs_ok s" and "node_refs_ok s"
  using assms by (simp_all add: promise_refs_ok_def node_refs_ok_def)

lemma promise_refs_ok_advance_to:
  assumes "promise_refs_ok s"
  shows "promise_refs_ok (advance_to t s)"
  using assms by (auto simp: promise_refs_ok_iff)

lemma node_refs_ok_advance_to:
  assumes "node_refs_ok s"
  shows "node_refs_ok (advance_to t s)"
proof -
  have tn: "task_nodes (advance_to t s) tk = task_nodes s tk" for tk
    by (rule task_nodes_cong) simp
  show ?thesis
    using assms advance_to_next_node_mono [of s t]
    by (fastforce simp: node_refs_ok_def tn)
qed

lemma run_listener_timers:
  "promise_refs_ok s \<Longrightarrow> promise_refs_ok (run_listener l s)"
  "node_refs_ok s \<Longrightarrow> node_refs_ok (run_listener l s)"
proof -
  have tn: "task_nodes (run_listener l s) tk = task_nodes s tk" for tk
    by (rule task_nodes_cong) simp
  show "promise_refs_ok s \<Longrightarrow> promise_refs_ok (run_listener l s)"
    by (cases l) (auto simp: promise_refs_ok_iff)
  show "node_refs_ok (run_listener l s)" if ok: "node_refs_ok s"
  proof (cases l)
    case (Click_action d)
    define s0 where "s0 = (if truthy (buttonLink d)
        then console_out Log [''Content Block: Navigating to:'', str_of (buttonLink d)] s else s)"
    have r: "run_listener l s = showTemporaryMessage (click_message d) s0"
      by (simp add: Click_action s0_def)
    have s0: "timers s0 = timers s" "next_node s0 = next_node s" "now s0 = now s"
      by (simp_all add: s0_def)
    show ?thesis
      unfolding node_refs_ok_def tn
    proof (clarify)
      fix due tk n
      assume i: "(due, tk) \<in> set (timers (run_listener l s))" and j: "n \<in> set (task_nodes s tk)"
      from i have "(due, tk) \<in> set (timers s) \<or> tk = Fade_in (next_node s) \<or> tk = Fade_out (next_node s)"
        by (auto simp: r s0)
      then show "n < next_node (run_listener l s)"
      proof (elim disjE)
        assume "(due, tk) \<in> set (timers s)"
        with ok j have "n < next_node s" by (fastforce simp: node_refs_ok_def)
        then show ?thesis by (simp add: r s0)
      next
        assume "tk = Fade_in (next_node s)"
        with j show ?thesis by (simp add: r s0)
      next
        assume "tk = Fade_out (next_node s)"
        with j show ?thesis by (simp add: r s0)
      qed
    qed
  next
    case (Remove_self m)
    show ?thesis
      using ok unfolding node_refs_ok_def tn by (simp add: Remove_self)
  qed
qed

lemma refs_ok_dispatchEvent:
  "promise_refs_ok s \<Longrightarrow> promise_refs_ok (dispatchEvent ev n s)"
  "node_refs_ok s \<Longrightarrow> node_refs_ok (dispatchEvent ev n s)"
proof -
  have a: "promise_refs_ok s \<Longrightarrow> promise_refs_ok (fold run_listener ls s)" for ls s
    by (induction ls arbitrary: s) (simp_all add: run_listener_timers)
  have b: "node_refs_ok s \<Longrightarrow> node_refs_ok (fold run_listener ls s)" for ls s
    by (induction ls arbitrary: s) (simp_all add: run_listener_timers)
  show "promise_refs_ok s \<Longrightarrow> promise_refs_ok (dispatchEvent ev n s)"
    by (simp add: dispatchEvent_def a)
  show "node_refs_ok s \<Longrightarrow> node_refs_ok (dispatchEvent ev n s)"
    by (simp add: dispatchEvent_def b)
qed

lemma on_DOMContentLoaded_Some:
  assumes "getElementById ''edsContentBlock'' s = Some c"
  obtains blockId where
    "timers (on_DOMContentLoaded s) =
       timers s @ [(now s + 500, Resolve_fetch (next_promise s) blockId)]"
    "next_promise (on_DOMContentLoaded s) = Suc (next_promise s)"
    "next_node (on_DOMContentLoaded s) = next_node s"
    "\<And>q. reactions (promises (on_DOMContentLoaded s) q) =
       (if q = next_promise s then [Then_render_catch (load_targets s) blockId]
        else reactions (promises s q))"
proof -
  define blockId where "blockId =
    (case data_block_id (nodes s c) of
       Some v \<Rightarrow> if v \<noteq> [] then v else ''homepage-hero-block''
     | None \<Rightarrow> ''homepage-hero-block'')"
  have e: "on_DOMContentLoaded s =
      (snd (fetchContentForBlock blockId s))\<lparr>promises :=
         (promises (snd (fetchContentForBlock blockId s)))
         (next_promise s := (promises (snd (fetchContentForBlock blockId s)) (next_promise s))
            \<lparr>reactions := reactions (promises (snd (fetchContentForBlock blockId s)) (next_promise s)) @
               [Then_render_catch (load_targets s) blockId]\<rparr>)\<rparr>"
    unfolding on_DOMContentLoaded_def Let_def assms option.case blockId_def [symmetric]
    by (simp add: split_beta fetch_parts)
  have o: "reactions (promises (snd (fetchContentForBlock blockId s)) q) = reactions (promises s q)"
    if "q \<noteq> next_promise s" for q
    using that by (simp add: fetchContentForBlock_def Let_def)
  have n: "next_node (snd (fetchContentForBlock blockId s)) = next_node s"
    by (simp add: fetchContentForBlock_def Let_def)
  show ?thesis
  proof (rule that [of blockId])
    show "timers (on_DOMContentLoaded s) =
       timers s @ [(now s + 500, Resolve_fetch (next_promise s) blockId)]"
      by (simp add: e fetch_parts)
    show "next_promise (on_DOMContentLoaded s) = Suc (next_promise s)"
      by (simp add: e fetch_parts)
    show "next_node (on_DOMContentLoaded s) = next_node s"
      by (simp add: e n)
    show "reactions (promises (on_DOMContentLoaded s) q) =
       (if q = next_promise s then [Then_render_catch (load_targets s) blockId]
        else reactions (promises s q))" for q
      by (simp add: e fetch_parts o)
  qed
qed

lemma refs_ok_DOMContentLoaded:
  assumes "promise_refs_ok s" and "node_refs_ok s"
  shows "promise_refs_ok (on_DOMContentLoaded s)" and "node_refs_ok (on_DOMContentLoaded s)"
proof -
  have lt: "n \<in> set (target_nodes (load_targets s)) \<Longrightarrow> n < next_node s" for n
    using load_targets_ok [of s]
    by (auto simp: target_nodes_def targets_ok_def split: option.splits)
  have old: "q < next_promise s" if "(due, Resolve_fetch q b) \<in> set (timers s)" for due q b
    using assms(1) that by (auto simp: promise_refs_ok_iff)
  show "promise_refs_ok (on_DOMContentLoaded s)" "node_refs_ok (on_DOMContentLoaded s)"
  proof (atomize (full), cases "getElementById ''edsContentBlock'' s")
    case None
    have e: "on_DOMContentLoaded s = console_out Error
        [''Content Block: Main container element with ID 'edsContentBlock' not found. Ensure your EDS template renders this element.''] s"
      by (simp add: on_DOMContentLoaded_def Let_def None)
    have tn: "task_nodes (on_DOMContentLoaded s) tk = task_nodes s tk" for tk
      by (rule task_nodes_cong) (simp add: e)
    show "promise_refs_ok (on_DOMContentLoaded s) \<and> node_refs_ok (on_DOMContentLoaded s)"
      using assms unfolding promise_refs_ok_iff node_refs_ok_def tn by (simp add: e)
  next
    case (Some c)
    from on_DOMContentLoaded_Some [OF Some] obtain blockId where
      tm: "timers (on_DOMContentLoaded s) =
         timers s @ [(now s + 500, Resolve_fetch (next_promise s) blockId)]"
      and np: "next_promise (on_DOMContentLoaded s) = Suc (next_promise s)"
      and nn: "next_node (on_DOMContentLoaded s) = next_node s"
      and re: "\<And>q. reactions (promises (on_DOMContentLoaded s) q) =
         (if q = next_promise s then [Then_render_catch (load_targets s) blockId]
          else reactions (promises s q))"
      by blast
    have p: "promise_refs_ok (on_DOMContentLoaded s)"
      unfolding promise_refs_ok_iff tm np using old by (auto simp: less_Suc_eq)
    have "n < next_node (on_DOMContentLoaded s)"
      if i: "(due, tk) \<in> set (timers (on_DOMContentLoaded s))"
        and j: "n \<in> set (task_nodes (on_DOMContentLoaded s) tk)" for due tk n
    proof -
      from i have "(due, tk) \<in> set (timers s) \<or> tk = Resolve_fetch (next_promise s) blockId"
        by (auto simp: tm)
      then show ?thesis
      proof
        assume o: "(due, tk) \<in> set (timers s)"
        have "task_nodes (on_DOMContentLoaded s) tk = task_nodes s tk"
        proof (cases tk)
          case (Resolve_fetch q b)
          with o old have "q \<noteq> next_promise s" by fastforce
          then show ?thesis by (simp add: Resolve_fetch re)
        qed simp_all
        with j o assms(2) show ?thesis by (fastforce simp: node_refs_ok_def nn)
      next
        assume tk: "tk = Resolve_fetch (next_promise s) blockId"
        from j have "n \<in> set (target_nodes (load_targets s))"
          by (simp add: tk re)
        with lt show ?thesis by (simp add: nn)
      qed
    qed
    then have "node_refs_ok (on_DOMContentLoaded s)"
      unfolding node_refs_ok_def by blast
    with p show "promise_refs_ok (on_DOMContentLoaded s) \<and> node_refs_ok (on_DOMContentLoaded s)" ..
  qed
qed

text \<open>
  The stale reference, on every page: once a render with a button text has returned, the
  button target is detached, so every later render with a button text throws and leaves the
  replacement button of the first render as it was.
\<close>

lemma second_render_throws:
  assumes "targets_ok tg s" and "blockButtonElement tg = Some b"
    and "truthy (buttonText d1)" and "truthy (buttonText d2)"
    and "renderContentBlock tg d1 s = (Returned, s1)"
  shows "fst (renderContentBlock tg d2 s1) = Threw TypeError"
    and "nodes (snd (renderContentBlock tg d2 s1)) (next_node s) = nodes s1 (next_node s)"
    and "listeners (nodes s1 (next_node s)) = [(''click'', Click_action d1)]"
    and "textContent (nodes s1 (next_node s)) = str_of (buttonText d1)"
    and "parentNode (nodes s1 (next_node s)) = parentNode (nodes s b)"
proof -
  let ?s2 = "render_description tg d1 (render_title tg d1 s)"
  have s1: "s1 = snd (render_button tg d1 ?s2)" and ret: "fst (render_button tg d1 ?s2) = Returned"
    using assms(5) by (simp_all add: renderContentBlock_def)
  have bn: "b \<noteq> next_node ?s2" and bl: "b < next_node s"
    using assms(1,2) by (simp_all add: targets_ok_def)
  have pb: "parentNode (nodes ?s2 b) = parentNode (nodes s b)"
    by (simp add: render_description_keeps render_title_keeps)
  from ret render_button_throws [OF assms(2,3) bn] obtain p where p: "parentNode (nodes ?s2 b) = Some p"
    by auto
  note inst = render_button_installs [OF assms(2,3) p bn]
  have nb: "nodes s1 (next_node s) =
           (nodes ?s2 b)\<lparr>textContent := str_of (buttonText d1), display := ''block'',
              parentNode := Some p, listeners := [(''click'', Click_action d1)]\<rparr>"
    using inst(2) by (simp add: s1)
  have det: "parentNode (nodes s1 b) = None"
    using inst(3) by (simp add: s1)
  have nn1: "next_node s1 = Suc (next_node s)"
    using assms(2,3) by (simp add: s1 render_button_next_node)
  let ?t2 = "render_description tg d2 (render_title tg d2 s1)"
  have bn2: "b \<noteq> next_node ?t2" using bl by (simp add: nn1)
  have "parentNode (nodes ?t2 b) = None"
    using det by (simp add: render_description_keeps render_title_keeps)
  with render_button_throws [OF assms(2,4) bn2]
  have "fst (render_button tg d2 ?t2) \<noteq> Returned" by simp
  then show "fst (renderContentBlock tg d2 s1) = Threw TypeError"
  proof (cases "fst (render_button tg d2 ?t2)")
    case Returned
    with \<open>fst (render_button tg d2 ?t2) \<noteq> Returned\<close> show ?thesis by simp
  next
    case (Threw e)
    then show ?thesis by (cases e) (simp add: renderContentBlock_def)
  qed
  have nt: "next_node s \<notin> set (target_nodes tg)"
    using assms(1) by (auto simp: target_nodes_iff targets_ok_def split: option.splits)
  show "nodes (snd (renderContentBlock tg d2 s1)) (next_node s) = nodes s1 (next_node s)"
    by (rule render_untouched [OF nt]) (simp add: nn1)
  show "listeners (nodes s1 (next_node s)) = [(''click'', Click_action d1)]"
    "textContent (nodes s1 (next_node s)) = str_of (buttonText d1)"
    by (simp_all add: nb)
  show "parentNode (nodes s1 (next_node s)) = parentNode (nodes s b)"
    using p pb by (simp add: nb)
qed

section \<open>The content source\<close>

text \<open>
  C2. For every block identifier the promise returned by \<^verbatim>\<open>fetchContentForBlock\<close> is never
  rejected, however far time advances, and once the 500 ms timer has fired it is fulfilled:
  a lookup miss is a value, not a failure.
\<close>

theorem fetch_never_rejects:
  "settlement (promises (advance_to t (snd (fetchContentForBlock blockId s)))
        (fst (fetchContentForBlock blockId s))) \<noteq> Rejected e \<and>
   (now s + 500 \<le> t \<longrightarrow>
     (\<exists>v. settlement (promises (advance_to t (snd (fetchContentForBlock blockId s)))
        (fst (fetchContentForBlock blockId s))) = Fulfilled v))"
proof -
  let ?p = "next_promise s"
  let ?s1 = "snd (fetchContentForBlock blockId s)"
  let ?tks = "map snd (sort_key fst (filter (\<lambda>(due, tk). due \<le> t) (timers ?s1)))"
  have st: "settlement (promises (advance_to t ?s1) ?p) = fold (settle_effect ?p) ?tks Pending"
    by (simp add: advance_to_settlement fetch_parts)
  have a: "fold (settle_effect ?p) ?tks Pending \<noteq> Rejected e"
    by (rule settle_effect_not_rejected) simp
  have b: "\<exists>v. fold (settle_effect ?p) ?tks Pending = Fulfilled v" if "now s + 500 \<le> t"
  proof -
    have "Resolve_fetch ?p blockId \<in> set ?tks"
      unfolding due_tasks_set using that by (force simp: fetch_parts)
    then obtain xs ys where sp: "?tks = xs @ Resolve_fetch ?p blockId # ys"
      by (meson split_list)
    show ?thesis
    proof (cases "fold (settle_effect ?p) xs Pending = Pending")
      case True
      then show ?thesis by (simp add: sp settle_effect_settled)
    next
      case False
      moreover have "fold (settle_effect ?p) xs Pending \<noteq> Rejected x" for x
        by (rule settle_effect_not_rejected) simp
      ultimately obtain v where "fold (settle_effect ?p) xs Pending = Fulfilled v"
        by (cases "fold (settle_effect ?p) xs Pending") auto
      then show ?thesis by (simp add: sp settle_effect_settled)
    qed
  qed
  show ?thesis using a b by (simp add: st fetch_parts)
qed

theorem fetch_never_rejects_witness:
  "now (host_page None) + 500 \<le> 500 \<and>
   settlement (promises (advance_to 500 (snd (fetchContentForBlock ''no-such-block'' (host_page None))))
        (fst (fetchContentForBlock ''no-such-block'' (host_page None)))) \<noteq> Rejected TypeError \<and>
   (\<exists>v. settlement (promises (advance_to 500 (snd (fetchContentForBlock ''no-such-block'' (host_page None))))
        (fst (fetchContentForBlock ''no-such-block'' (host_page None)))) = Fulfilled v)"
proof -
  have n: "now (host_page None) + 500 \<le> 500" by (simp add: host_page_def)
  show ?thesis
    using n fetch_never_rejects [of 500 "''no-such-block''" "host_page None" TypeError] by blast
qed

text \<open>
  C3. For an identifier that is a key of the fixed table, the promise is still pending at
  every time before the 500 ms delay has elapsed, and from then on it is fulfilled with
  exactly the table's entry for that identifier.
\<close>

theorem fetch_known_after_delay:
  assumes "map_of mockContentData blockId = Some entry" and "promise_refs_ok s"
  shows "settlement (promises (advance_to t (snd (fetchContentForBlock blockId s)))
            (fst (fetchContentForBlock blockId s))) =
         (if t < now s + 500 then Pending else Fulfilled (Entry entry))"
proof -
  let ?p = "next_promise s"
  let ?s1 = "snd (fetchContentForBlock blockId s)"
  let ?tks = "map snd (sort_key fst (filter (\<lambda>(due, tk). due \<le> t) (timers ?s1)))"
  have st: "settlement (promises (advance_to t ?s1) ?p) = fold (settle_effect ?p) ?tks Pending"
    by (simp add: advance_to_settlement fetch_parts)
  have old: "Resolve_fetch ?p b' \<notin> snd ` set (timers s)" for b'
    using assms(2) by (force simp: promise_refs_ok_def)
  have uniq: "\<forall>b'. Resolve_fetch ?p b' \<in> set ?tks \<longrightarrow> b' = blockId"
    unfolding due_tasks_set using old by (force simp: fetch_parts)
  have mem: "Resolve_fetch ?p blockId \<in> set ?tks \<longleftrightarrow> now s + 500 \<le> t"
    unfolding due_tasks_set using old by (force simp: fetch_parts)
  have rd: "resolved_data blockId = Entry entry"
    using assms(1) by (simp add: resolved_data_def get_property_def)
  define r where "r = fold (settle_effect ?p) ?tks Pending"
  have "r = (if now s + 500 \<le> t then Fulfilled (Entry entry) else Pending)"
    unfolding r_def settle_effect_pending[OF uniq] mem rd ..
  then have e2: "r = (if t < now s + 500 then Pending else Fulfilled (Entry entry))"
    by auto
  have e1: "settlement (promises (advance_to t ?s1) ?p) = r"
    unfolding r_def by (rule st)
  show ?thesis unfolding fetch_parts(1) using e1 e2 by (rule trans)
qed

theorem fetch_known_after_delay_witness:
  "map_of mockContentData ''homepage-hero-block'' =
     Some \<lparr>title = Str ''Accelerate Your Digital Experience'',
       description = Str ''Leverage Adobe EDS components for rapid development and consistent brand presence across all your digital touchpoints. From design to deployment, streamline your workflow.'',
       buttonText = Str ''Discover Our Components'',
       buttonLink = Str ''/components''\<rparr> \<and>
   promise_refs_ok (host_page None) \<and>
   settlement (promises (advance_to 499 (snd (fetchContentForBlock ''homepage-hero-block'' (host_page None))))
        (fst (fetchContentForBlock ''homepage-hero-block'' (host_page None)))) = Pending \<and>
   settlement (promises (advance_to 500 (snd (fetchContentForBlock ''homepage-hero-block'' (host_page None))))
        (fst (fetchContentForBlock ''homepage-hero-block'' (host_page None)))) =
     Fulfilled (Entry \<lparr>title = Str ''Accelerate Your Digital Experience'',
       description = Str ''Leverage Adobe EDS components for rapid development and consistent brand presence across all your digital touchpoints. From design to deployment, streamline your workflow.'',
       buttonText = Str ''Discover Our Components'',
       buttonLink = Str ''/components''\<rparr>)"
proof -
  have a: "map_of mockContentData ''homepage-hero-block'' =
     Some \<lparr>title = Str ''Accelerate Your Digital Experience'',
       description = Str ''Leverage Adobe EDS components for rapid development and consistent brand presence across all your digital touchpoints. From design to deployment, streamline your workflow.'',
       buttonText = Str ''Discover Our Components'',
       buttonLink = Str ''/components''\<rparr>"
    by (simp add: mockContentData_def)
  have b: "promise_refs_ok (host_page None)"
    by (simp add: promise_refs_ok_def host_page_def)
  have n: "now (host_page None) = 0" by (simp add: host_page_def)
  show ?thesis
    using a b fetch_known_after_delay [OF a b, of 499] fetch_known_after_delay [OF a b, of 500]
    by (simp add: n)
qed

text \<open>
  C4. The claim holds for identifiers that are neither keys of the table nor names of
  members of \<^verbatim>\<open>Object.prototype\<close> (lemma \<open>resolved_data_unknown\<close>). For the identifier
  \<^verbatim>\<open>toString\<close>, which is not a key of the table, line 156 finds the inherited function, which
  is truthy: the promise is fulfilled with it and not with the fallback payload, and
  reading its title gives \<^verbatim>\<open>undefined\<close>.
\<close>

theorem fetch_inherited_key_not_fallback:
  "''toString'' \<notin> set (map fst mockContentData) \<and>
   settlement (promises (advance_to 500 (snd (fetchContentForBlock ''toString'' (host_page None))))
        (fst (fetchContentForBlock ''toString'' (host_page None)))) =
     Fulfilled (Inherited ''toString'') \<and>
   Inherited ''toString'' \<noteq> Entry (fallback ''toString'') \<and>
   title (payload_of (Inherited ''toString'')) = Undefined"
proof -
  have k: "''toString'' \<notin> set (map fst mockContentData)"
    by (simp add: mockContentData_def)
  have r: "resolved_data ''toString'' = Inherited ''toString''"
    by (simp add: resolved_data_def get_property_def mockContentData_def object_prototype_keys_def)
  have t: "timers (host_page None) = []" "now (host_page None) = 0"
    by (simp_all add: host_page_def)
  have "settlement (promises (advance_to 500 (snd (fetchContentForBlock ''toString'' (host_page None))))
        (fst (fetchContentForBlock ''toString'' (host_page None)))) =
     Fulfilled (Inherited ''toString'')"
    by (simp add: advance_to_settlement fetch_parts t r)
  with k show ?thesis by simp
qed

section \<open>The renderer\<close>

text \<open>
  C5. After a call of \<^verbatim>\<open>renderContentBlock\<close> (whether or not its button part completes), the
  title element, when it exists, shows \<^verbatim>\<open>data.title\<close> if that is non-empty and the text
  \<^verbatim>\<open>Default Component Title\<close> otherwise; the title warning is written to the console
  exactly when the title is empty or absent or the title element is missing. The same holds
  for the description, with its own default text and warning, independently of the title.
\<close>

theorem render_title_description:
  assumes "targets_ok tg s"
  shows
    "console (snd (renderContentBlock tg d s)) =
       console s @
       (if blockTitleElement tg \<noteq> None \<and> truthy (title d) then [] else [title_warning]) @
       (if blockDescriptionElement tg \<noteq> None \<and> truthy (description d) then []
        else [description_warning]) \<and>
     (case blockTitleElement tg of
        None \<Rightarrow> True
      | Some n \<Rightarrow> textContent (nodes (snd (renderContentBlock tg d s)) n) =
          (if truthy (title d) then str_of (title d) else ''Default Component Title'')) \<and>
     (case blockDescriptionElement tg of
        None \<Rightarrow> True
      | Some n \<Rightarrow> textContent (nodes (snd (renderContentBlock tg d s)) n) =
          (if truthy (description d) then str_of (description d)
           else ''Default description text for the component.''))"
proof -
  let ?s1 = "render_title tg d s"
  let ?s2 = "render_description tg d ?s1"
  have c: "console (snd (renderContentBlock tg d s)) =
       console s @
       (if blockTitleElement tg \<noteq> None \<and> truthy (title d) then [] else [title_warning]) @
       (if blockDescriptionElement tg \<noteq> None \<and> truthy (description d) then []
        else [description_warning])"
    by (simp add: renderContentBlock_def render_description_console render_title_console)
  have t: "textContent (nodes (snd (renderContentBlock tg d s)) n) =
          (if truthy (title d) then str_of (title d) else ''Default Component Title'')"
    if n: "blockTitleElement tg = Some n" for n
  proof -
    from assms n have "blockButtonElement tg \<noteq> Some n" "n \<noteq> next_node ?s2"
      "blockDescriptionElement tg \<noteq> Some n"
      by (auto simp: targets_ok_def)
    then show ?thesis
      using n
      by (simp add: renderContentBlock_def render_button_other render_description_nodes
          render_title_nodes split: option.splits)
  qed
  have e: "textContent (nodes (snd (renderContentBlock tg d s)) n) =
          (if truthy (description d) then str_of (description d)
           else ''Default description text for the component.'')"
    if n: "blockDescriptionElement tg = Some n" for n
  proof -
    from assms n have "blockButtonElement tg \<noteq> Some n" "n \<noteq> next_node ?s2"
      by (auto simp: targets_ok_def split: option.splits)
    then show ?thesis
      using n
      by (simp add: renderContentBlock_def render_button_other render_description_nodes)
  qed
  show ?thesis using c t e by (simp split: option.splits)
qed

theorem render_title_description_witness:
  "targets_ok host_targets (host_page None) \<and>
   console (snd (renderContentBlock host_targets
       \<lparr>title = Str [], description = Str ''D'', buttonText = Undefined, buttonLink = Undefined\<rparr>
       (host_page None))) = [title_warning] \<and>
   textContent (nodes (snd (renderContentBlock host_targets
       \<lparr>title = Str [], description = Str ''D'', buttonText = Undefined, buttonLink = Undefined\<rparr>
       (host_page None))) 3) = ''Default Component Title'' \<and>
   textContent (nodes (snd (renderContentBlock host_targets
       \<lparr>title = Str [], description = Str ''D'', buttonText = Undefined, buttonLink = Undefined\<rparr>
       (host_page None))) 4) = ''D''"
proof -
  have ok: "targets_ok host_targets (host_page None)"
    by (simp add: targets_ok_def host_targets_def host_page_def)
  have c: "console (host_page None) = []" by (simp add: host_page_def)
  show ?thesis
    using ok render_title_description [OF ok,
        of "\<lparr>title = Str [], description = Str ''D'', buttonText = Undefined, buttonLink = Undefined\<rparr>"]
    by (simp add: host_targets_def c)
qed

text \<open>
  C6. On the example page as loaded, a render without button text hides the button of the
  document (element 5). After a render with the button text \<^verbatim>\<open>First\<close>, the button of
  the document is the clone, element 6, which carries the click listener of that render,
  while \<^verbatim>\<open>blockButtonElement\<close> still refers to the detached element 5. A render without button
  text then returns normally, but line 60 sets \<^verbatim>\<open>display\<close> to \<^verbatim>\<open>none\<close> on the detached
  element 5: the button of the document keeps \<^verbatim>\<open>display\<close> \<^verbatim>\<open>block\<close>, with its text and its
  listener, and is not hidden.
\<close>

theorem hide_after_render_leaves_button_visible:
  "buttonText no_button_payload = Undefined \<and>
   getElementById ''blockButton'' hidden_at_load = Some 5 \<and>
   display (nodes hidden_at_load 5) = ''none'' \<and>
   getElementById ''blockButton'' once_rendered = Some 6 \<and>
   listeners (nodes once_rendered 6) = [(''click'', Click_action first_payload)] \<and>
   fst (renderContentBlock host_targets no_button_payload once_rendered) = Returned \<and>
   getElementById ''blockButton'' hidden_after_render = Some 6 \<and>
   display (nodes hidden_after_render 6) = ''block'' \<and>
   textContent (nodes hidden_after_render 6) = ''First'' \<and>
   listeners (nodes hidden_after_render 6) = [(''click'', Click_action first_payload)] \<and>
   parentNode (nodes hidden_after_render 5) = None \<and>
   display (nodes hidden_after_render 5) = ''none''"
proof -
  have "buttonText no_button_payload = Undefined"
    by (simp add: no_button_payload_def)
  moreover have "getElementById ''blockButton'' hidden_at_load = Some 5"
    by code_simp
  moreover have "display (nodes hidden_at_load 5) = ''none''"
    by code_simp
  moreover have "getElementById ''blockButton'' once_rendered = Some 6"
    by code_simp
  moreover have "listeners (nodes once_rendered 6) = [(''click'', Click_action first_payload)]"
    by code_simp
  moreover have "fst (renderContentBlock host_targets no_button_payload once_rendered) = Returned"
    by code_simp
  moreover have "getElementById ''blockButton'' hidden_after_render = Some 6"
    by code_simp
  moreover have "display (nodes hidden_after_render 6) = ''block''"
    by code_simp
  moreover have "textContent (nodes hidden_after_render 6) = ''First''"
    by code_simp
  moreover have "listeners (nodes hidden_after_render 6) = [(''click'', Click_action first_payload)]"
    by code_simp
  moreover have "parentNode (nodes hidden_after_render 5) = None"
    by code_simp
  moreover have "display (nodes hidden_after_render 5) = ''none''"
    by code_simp
  ultimately show ?thesis by blast
qed

text \<open>
  C7. After a call of \<^verbatim>\<open>renderContentBlock\<close> that returned normally, with non-empty
  \<^verbatim>\<open>buttonText\<close> and \<^verbatim>\<open>buttonLink\<close>, the replacement button carries exactly one click
  listener. Running it leaves the page location as it was, logs the navigation, and appends
  to the body a new overlay whose text is \<^verbatim>\<open>Action: "<buttonText>" clicked!\<close>, with its two
  fade timers scheduled.
\<close>

theorem click_after_render:
  assumes "targets_ok tg s" and "blockButtonElement tg = Some b"
    and "truthy (buttonText d)" and "truthy (buttonLink d)"
    and "renderContentBlock tg d s = (Returned, s1)"
  shows
    "listeners (nodes s1 (next_node s)) = [(''click'', Click_action d)] \<and>
     parentNode (nodes s1 (next_node s)) = parentNode (nodes s b) \<and>
     parentNode (nodes s b) \<noteq> None \<and>
     location_href (dispatchEvent ''click'' (next_node s) s1) = location_href s \<and>
     console (dispatchEvent ''click'' (next_node s) s1) =
       console s1 @ [(Log, [''Content Block: Navigating to:'', str_of (buttonLink d)])] \<and>
     next_node (dispatchEvent ''click'' (next_node s) s1) = Suc (next_node s1) \<and>
     nodes (dispatchEvent ''click'' (next_node s) s1) (next_node s1) =
       blank\<lparr>textContent := ''Action: '' @ [CHR 0x22] @ str_of (buttonText d) @ [CHR 0x22] @ '' clicked!'',
             opacity := ''0'', parentNode := Some (body s)\<rparr> \<and>
     timers (dispatchEvent ''click'' (next_node s) s1) =
       timers s @ [(now s + 10, Fade_in (next_node s1)), (now s + 2000, Fade_out (next_node s1))]"
proof -
  let ?s2 = "render_description tg d (render_title tg d s)"
  have s1: "s1 = snd (render_button tg d ?s2)" and ret: "fst (render_button tg d ?s2) = Returned"
    using assms(5) by (simp_all add: renderContentBlock_def)
  have nn: "next_node ?s2 = next_node s" by simp
  have bn: "b \<noteq> next_node ?s2"
    using assms(1,2) by (simp add: targets_ok_def)
  have pb: "parentNode (nodes ?s2 b) = parentNode (nodes s b)"
    by (simp add: render_description_keeps render_title_keeps)
  from ret render_button_throws [OF assms(2,3) bn] obtain p where p: "parentNode (nodes ?s2 b) = Some p"
    by auto
  note inst = render_button_installs [OF assms(2,3) p bn]
  have nb: "nodes s1 (next_node s) =
           (nodes ?s2 b)\<lparr>textContent := str_of (buttonText d), display := ''block'',
              parentNode := Some p, listeners := [(''click'', Click_action d)]\<rparr>"
    using inst(2) by (simp add: s1)
  have ev: "dispatchEvent ''click'' (next_node s) s1 =
      showTemporaryMessage (click_message d)
        (console_out Log [''Content Block: Navigating to:'', str_of (buttonLink d)] s1)"
    using assms(4) by (simp add: dispatchEvent_def nb)
  have pj: "location_href s1 = location_href s" "timers s1 = timers s" "now s1 = now s"
    "body s1 = body s"
    by (simp_all add: s1)
  show ?thesis
    using p pb by (simp add: ev nb pj click_message_def)
qed

theorem click_after_render_witness:
  "targets_ok host_targets (host_page None) \<and>
   blockButtonElement host_targets = Some 5 \<and>
   truthy (buttonText first_payload) \<and> truthy (buttonLink first_payload) \<and>
   renderContentBlock host_targets first_payload (host_page None) = (Returned, once_rendered) \<and>
   listeners (nodes once_rendered 6) = [(''click'', Click_action first_payload)] \<and>
   location_href (dispatchEvent ''click'' 6 once_rendered) = location_href (host_page None) \<and>
   console (dispatchEvent ''click'' 6 once_rendered) =
     [(Log, [''Content Block: Navigating to:'', ''/first''])] \<and>
   textContent (nodes (dispatchEvent ''click'' 6 once_rendered) 7) =
     ''Action: '' @ [CHR 0x22] @ ''First'' @ [CHR 0x22] @ '' clicked!'' \<and>
   parentNode (nodes (dispatchEvent ''click'' 6 once_rendered) 7) = Some 1 \<and>
   opacity (nodes (advance_to 10 (dispatchEvent ''click'' 6 once_rendered)) 7) = ''1''"
proof -
  have ok: "targets_ok host_targets (host_page None)"
    by (simp add: targets_ok_def host_targets_def host_page_def)
  have b: "blockButtonElement host_targets = Some 5" by (simp add: host_targets_def)
  have t1: "truthy (buttonText first_payload)" and t2: "truthy (buttonLink first_payload)"
    by (simp_all add: first_payload_def)
  have "fst (renderContentBlock host_targets first_payload (host_page None)) = Returned"
    by code_simp
  then have r: "renderContentBlock host_targets first_payload (host_page None) = (Returned, once_rendered)"
    by (simp add: once_rendered_def prod_eq_iff)
  have n: "next_node (host_page None) = 6" "body (host_page None) = 1" "next_node once_rendered = 7"
    "console once_rendered = []"
    by code_simp+
  have v: "opacity (nodes (advance_to 10 (dispatchEvent ''click'' 6 once_rendered)) 7) = ''1''"
    by code_simp
  have s: "str_of (buttonText first_payload) = ''First''" "str_of (buttonLink first_payload) = ''/first''"
    by (simp_all add: first_payload_def)
  show ?thesis
    using ok b t1 t2 r v click_after_render [OF ok b t1 t2 r]
    by (simp add: n s blank_def)
qed

text \<open>
  C1. On the example page, a first render with button text \<^verbatim>\<open>First\<close> replaces the button
  element 5 by its clone 6, leaving element 5 detached; \<^verbatim>\<open>blockButtonElement\<close> still refers to
  element 5. A second render with button text \<^verbatim>\<open>Second\<close> therefore throws a \<^verbatim>\<open>TypeError\<close> at
  line 48, and the button of the document is still element 6 with the text and the click
  listener of the first render: clicking it shows the notification for \<^verbatim>\<open>First\<close>.
\<close>

theorem second_render_keeps_first_handler:
  "buttonText first_payload \<noteq> buttonText second_payload \<and>
   fst (renderContentBlock host_targets first_payload (host_page None)) = Returned \<and>
   fst (renderContentBlock host_targets second_payload once_rendered) = Threw TypeError \<and>
   getElementById ''blockButton'' twice_rendered = Some 6 \<and>
   listeners (nodes twice_rendered 6) = [(''click'', Click_action first_payload)] \<and>
   textContent (nodes twice_rendered 6) = ''First'' \<and>
   textContent (nodes (dispatchEvent ''click'' 6 twice_rendered) 8) =
     ''Action: '' @ [CHR 0x22] @ ''First'' @ [CHR 0x22] @ '' clicked!''"
proof -
  have "buttonText first_payload \<noteq> buttonText second_payload"
    by (simp add: first_payload_def second_payload_def)
  moreover have "fst (renderContentBlock host_targets first_payload (host_page None)) = Returned"
    by code_simp
  moreover have "fst (renderContentBlock host_targets second_payload once_rendered) = Threw TypeError"
    by code_simp
  moreover have "getElementById ''blockButton'' twice_rendered = Some 6"
    by code_simp
  moreover have "listeners (nodes twice_rendered 6) = [(''click'', Click_action first_payload)]"
    by code_simp
  moreover have "textContent (nodes twice_rendered 6) = ''First''"
    by code_simp
  moreover have "textContent (nodes (dispatchEvent ''click'' 6 twice_rendered) 8) =
     ''Action: '' @ [CHR 0x22] @ ''First'' @ [CHR 0x22] @ '' clicked!''"
    by code_simp
  ultimately show ?thesis by blast
qed

section \<open>The notification overlay\<close>

text \<open>
  C8. \<^verbatim>\<open>showTemporaryMessage\<close> appends a new overlay to the body with opacity 0. As time
  advances, the overlay has opacity 1 from 10 ms on and opacity 0 again from 2000 ms on, and
  at every time, the 2000 ms mark included, it is still in the document: no timer removes
  it. A \<^verbatim>\<open>transitionend\<close> event at the overlay removes it exactly when the fade-out has
  started (from 2000 ms on); before that no listener is registered and the event leaves it
  in place.
\<close>

theorem overlay_lifecycle:
  assumes "node_refs_ok s"
  shows
    "textContent (nodes (showTemporaryMessage msg s) (next_node s)) = msg \<and>
     opacity (nodes (showTemporaryMessage msg s) (next_node s)) = ''0'' \<and>
     parentNode (nodes (showTemporaryMessage msg s) (next_node s)) = Some (body s) \<and>
     opacity (nodes (advance_to t (showTemporaryMessage msg s)) (next_node s)) =
       (if now s + 10 \<le> t \<and> t < now s + 2000 then ''1'' else ''0'') \<and>
     parentNode (nodes (advance_to t (showTemporaryMessage msg s)) (next_node s)) = Some (body s) \<and>
     parentNode (nodes (dispatchEvent ''transitionend'' (next_node s)
         (advance_to t (showTemporaryMessage msg s))) (next_node s)) =
       (if now s + 2000 \<le> t then None else Some (body s))"
proof -
  define m where "m = next_node s"
  define s1 where "s1 = showTemporaryMessage msg s"
  define s2 where "s2 = advance_to t s1"
  define x0 where "x0 = blank\<lparr>textContent := msg, opacity := ''0'', parentNode := Some (body s)\<rparr>"
  have n1: "nodes s1 m = x0" by (simp add: s1_def m_def x0_def)
  have tm: "timers s1 = timers s @ [(now s + 10, Fade_in m), (now s + 2000, Fade_out m)]"
    by (simp add: s1_def m_def)
  have rn: "render_nodes s1 tk = render_nodes s tk" for tk
    by (cases tk) (simp_all add: s1_def)
  have old_fade: "\<forall>(due, tk) \<in> set (timers s). tk \<noteq> Fade_in m \<and> tk \<noteq> Fade_out m"
    using assms by (fastforce simp: node_refs_ok_def m_def)
  have old_render: "\<forall>(due, tk) \<in> set (timers s). m \<notin> set (render_nodes s tk)"
  proof (clarify)
    fix due tk
    assume i: "(due, tk) \<in> set (timers s)" and j: "m \<in> set (render_nodes s tk)"
    from j have "m \<in> set (task_nodes s tk)" by (cases tk) simp_all
    with assms i have "m < next_node s" by (fastforce simp: node_refs_ok_def)
    then show False by (simp add: m_def)
  qed
  have a: "\<forall>(due, tk) \<in> set (timers s1). m \<notin> set (render_nodes s1 tk)"
    using old_render by (auto simp: tm rn)
  have lt: "m < next_node s1" by (simp add: s1_def m_def)
  let ?L = "map snd (sort_key fst (filter (\<lambda>(due, tk). due \<le> t) (timers s1)))"
  let ?P = "\<lambda>tk. tk = Fade_in m \<or> tk = Fade_out m"
  have "nodes s2 m = fold (fade_effect m) ?L x0"
    unfolding s2_def by (simp only: advance_to_node [OF a lt] n1)
  also have "fold (fade_effect m) ?L = fold (fade_effect m) (filter ?P ?L)"
    by (rule fold_filter_id) (simp add: fade_effect_other)
  also have "filter ?P ?L =
      (if t < now s + 10 then [] else if t < now s + 2000 then [Fade_in m] else [Fade_in m, Fade_out m])"
    unfolding tm by (rule due_fades [OF old_fade])
  finally have n2: "nodes s2 m =
      (if t < now s + 10 then x0
       else if t < now s + 2000 then x0\<lparr>opacity := ''1''\<rparr>
       else x0\<lparr>opacity := ''0'', listeners := [(''transitionend'', Remove_self m)]\<rparr>)"
    by (simp add: x0_def blank_def)
  have ev: "parentNode (nodes (dispatchEvent ''transitionend'' m s2) m) =
       (if now s + 2000 \<le> t then None else Some (body s))"
    by (simp add: dispatchEvent_def n2 x0_def blank_def)
  have op: "opacity (nodes s2 m) = (if now s + 10 \<le> t \<and> t < now s + 2000 then ''1'' else ''0'')"
    by (simp add: n2 x0_def)
  have pa: "parentNode (nodes s2 m) = Some (body s)"
    by (simp add: n2 x0_def)
  show ?thesis
    using ev op pa n1 unfolding s2_def s1_def m_def x0_def by simp
qed

theorem overlay_lifecycle_witness:
  "node_refs_ok (on_DOMContentLoaded (host_page None)) \<and>
   opacity (nodes (advance_to 9 (showTemporaryMessage ''hi'' (on_DOMContentLoaded (host_page None)))) 6) = ''0'' \<and>
   opacity (nodes (advance_to 500 (showTemporaryMessage ''hi'' (on_DOMContentLoaded (host_page None)))) 6) = ''1'' \<and>
   opacity (nodes (advance_to 2000 (showTemporaryMessage ''hi'' (on_DOMContentLoaded (host_page None)))) 6) = ''0'' \<and>
   parentNode (nodes (advance_to 2000 (showTemporaryMessage ''hi'' (on_DOMContentLoaded (host_page None)))) 6) = Some 1 \<and>
   parentNode (nodes (dispatchEvent ''transitionend'' 6
       (advance_to 500 (showTemporaryMessage ''hi'' (on_DOMContentLoaded (host_page None))))) 6) = Some 1 \<and>
   parentNode (nodes (dispatchEvent ''transitionend'' 6
       (advance_to 2000 (showTemporaryMessage ''hi'' (on_DOMContentLoaded (host_page None))))) 6) = None"
proof -
  have ok: "node_refs_ok (on_DOMContentLoaded (host_page None))"
    by code_simp
  have n: "next_node (on_DOMContentLoaded (host_page None)) = 6"
    "body (on_DOMContentLoaded (host_page None)) = 1"
    "now (on_DOMContentLoaded (host_page None)) = 0"
    by code_simp+
  show ?thesis
    using ok overlay_lifecycle [OF ok, of "''hi''" 9] overlay_lifecycle [OF ok, of "''hi''" 500]
      overlay_lifecycle [OF ok, of "''hi''" 2000]
    by (simp add: n)
qed

section \<open>Initialisation\<close>

text \<open>
  C9. When the page has no element with the identifier \<^verbatim>\<open>edsContentBlock\<close>, initialisation
  only logs an error: no timer is started, no promise is created, no reaction is registered
  and no node is touched, so no fetch is issued and nothing is ever rendered.
\<close>

theorem init_without_container:
  assumes "getElementById ''edsContentBlock'' s = None"
  shows "on_DOMContentLoaded s =
           s\<lparr>console := console s @
              [(Error, [''Content Block: Main container element with ID 'edsContentBlock' not found. Ensure your EDS template renders this element.''])]\<rparr> \<and>
         timers (on_DOMContentLoaded s) = timers s \<and>
         promises (on_DOMContentLoaded s) = promises s \<and>
         next_promise (on_DOMContentLoaded s) = next_promise s \<and>
         nodes (on_DOMContentLoaded s) = nodes s \<and>
         next_node (on_DOMContentLoaded s) = next_node s"
  using assms by (simp add: on_DOMContentLoaded_def Let_def console_out_def)

theorem init_without_container_witness:
  "getElementById ''edsContentBlock'' bare_page = None \<and>
   console (on_DOMContentLoaded bare_page) =
     [(Error, [''Content Block: Main container element with ID 'edsContentBlock' not found. Ensure your EDS template renders this element.''])] \<and>
   timers (on_DOMContentLoaded bare_page) = [] \<and>
   next_promise (on_DOMContentLoaded bare_page) = 0 \<and>
   next_node (on_DOMContentLoaded bare_page) = 2 \<and>
   nodes (advance_to 10000 (on_DOMContentLoaded bare_page)) = nodes bare_page"
proof -
  have g: "getElementById ''edsContentBlock'' bare_page = None"
    by (simp add: getElementById_def bare_page_def element_def blank_def upt_rec)
  have c: "console bare_page = []" "timers bare_page = []" "next_promise bare_page = 0"
    "next_node bare_page = 2"
    by (simp_all add: bare_page_def)
  note i = init_without_container [OF g]
  have "console (on_DOMContentLoaded bare_page) =
     [(Error, [''Content Block: Main container element with ID 'edsContentBlock' not found. Ensure your EDS template renders this element.''])]"
    using i by (simp add: c)
  moreover have "nodes (advance_to 10000 (on_DOMContentLoaded bare_page)) = nodes bare_page"
    using i by (simp add: advance_to_def c)
  ultimately show ?thesis
    using g i by (simp add: c)
qed

text \<open>
  C10. When the container exists and its \<^verbatim>\<open>data-block-id\<close> attribute is absent or is the
  empty string, the fetch is issued for the identifier \<^verbatim>\<open>homepage-hero-block\<close>, and the
  reaction registered on its promise carries that identifier.
\<close>

theorem init_empty_attribute_uses_default:
  assumes "getElementById ''edsContentBlock'' s = Some c"
    and "data_block_id (nodes s c) = None \<or> data_block_id (nodes s c) = Some []"
  shows "timers (on_DOMContentLoaded s) =
           timers s @ [(now s + 500, Resolve_fetch (next_promise s) ''homepage-hero-block'')] \<and>
         reactions (promises (on_DOMContentLoaded s) (next_promise s)) =
           [Then_render_catch (load_targets s) ''homepage-hero-block''] \<and>
         settlement (promises (on_DOMContentLoaded s) (next_promise s)) = Pending"
  using assms
  by (auto simp: on_DOMContentLoaded_def Let_def fetchContentForBlock_def)

theorem init_empty_attribute_uses_default_witness:
  "getElementById ''edsContentBlock'' (host_page (Some [])) = Some 2 \<and>
   data_block_id (nodes (host_page (Some [])) 2) = Some [] \<and>
   timers (on_DOMContentLoaded (host_page (Some []))) =
     [(500, Resolve_fetch 0 ''homepage-hero-block'')] \<and>
   reactions (promises (on_DOMContentLoaded (host_page (Some []))) 0) =
     [Then_render_catch host_targets ''homepage-hero-block''] \<and>
   textContent (nodes (advance_to 500 (on_DOMContentLoaded (host_page (Some [])))) 3) =
     ''Accelerate Your Digital Experience''"
proof -
  have g: "getElementById ''edsContentBlock'' (host_page (Some [])) = Some 2"
    by (rule host_page_lookup)
  have a: "data_block_id (nodes (host_page (Some [])) 2) = Some []"
    by (simp add: host_page_def element_def blank_def)
  have c: "timers (host_page (Some [])) = []" "next_promise (host_page (Some [])) = 0"
    "now (host_page (Some [])) = 0"
    by (simp_all add: host_page_def)
  have l: "load_targets (host_page (Some [])) = host_targets"
    by (simp add: load_targets_def host_targets_def host_page_lookup)
  have e: "textContent (nodes (advance_to 500 (on_DOMContentLoaded (host_page (Some [])))) 3) =
     ''Accelerate Your Digital Experience''"
    by code_simp
  show ?thesis
    using g a e init_empty_attribute_uses_default [OF g disjI2 [OF a]]
    by (simp add: c l)
qed

end
